theory Spec2Isabelle
  imports Complex_Main "HOL-Library.Char_ord" "HOL-Library.List_Lexorder"
    "HOL-Library.Product_Lexorder" "HOL-Library.AList" "HOL-Library.Monad_Syntax"
begin

section \<open>Explainable portfolio dashboard: event windows and ticker detection\<close>

text \<open>
  The development covers \<^verbatim>\<open>app.py\<close> (\<^verbatim>\<open>compute_event_windows\<close>),
  \<^verbatim>\<open>utils/ticker_mapper.py\<close> (\<^verbatim>\<open>build_ticker_lookup\<close>,
  \<^verbatim>\<open>detect_tickers_in_text\<close>) and \<^verbatim>\<open>utils/data_loader.py\<close>
  (\<^verbatim>\<open>load_price_panel\<close>).

  Conventions of the embedding.
  \<^item> Python strings are \<open>string\<close>; the inputs are taken to be ASCII. A character
    outside ASCII is no letter, digit or word character here and is left alone by
    \<open>lower\<close> and \<open>upper\<close>; Python's Unicode tables are not modelled.
  \<^item> Floating-point numbers are real numbers extended by the two infinities and NaN
    (\<open>pyfloat\<close>); rounding and the sign of zero are not modelled.
  \<^item> A calendar date is its day number (an \<open>int\<close>); adding
    \<^verbatim>\<open>timedelta(days=d)\<close> adds \<open>d\<close>.
  \<^item> A pandas table is the list of its rows, each row a record of the columns the code
    reads or writes.
\<close>

subsection \<open>Characters and strings\<close>

definition is_upper_char :: "char \<Rightarrow> bool" where
  "is_upper_char c = (CHR ''A'' \<le> c \<and> c \<le> CHR ''Z'')"

definition is_lower_char :: "char \<Rightarrow> bool" where
  "is_lower_char c = (CHR ''a'' \<le> c \<and> c \<le> CHR ''z'')"

definition is_digit_char :: "char \<Rightarrow> bool" where
  "is_digit_char c = (CHR ''0'' \<le> c \<and> c \<le> CHR ''9'')"

text \<open>The regular-expression classes \<^verbatim>\<open>[A-Za-z]\<close> and \<^verbatim>\<open>[A-Za-z0-9]\<close>.\<close>

definition is_letter :: "char \<Rightarrow> bool" where
  "is_letter c = (is_upper_char c \<or> is_lower_char c)"

definition is_alnum :: "char \<Rightarrow> bool" where
  "is_alnum c = (is_letter c \<or> is_digit_char c)"

text \<open>The class \<^verbatim>\<open>\w\<close> that decides the word boundary \<^verbatim>\<open>\b\<close>: the underscore counts.\<close>

definition is_word_char :: "char \<Rightarrow> bool" where
  "is_word_char c = (is_alnum c \<or> c = CHR ''_'')"

definition lower_char :: "char \<Rightarrow> char" where
  "lower_char c = (if is_upper_char c then char_of (of_char c + (32::nat)) else c)"

definition upper_char :: "char \<Rightarrow> char" where
  "upper_char c = (if is_lower_char c then char_of (of_char c - (32::nat)) else c)"

text \<open>\<^verbatim>\<open>str.lower()\<close> and \<^verbatim>\<open>str.upper()\<close>.\<close>

definition lower :: "string \<Rightarrow> string" where
  "lower s = map lower_char s"

definition upper :: "string \<Rightarrow> string" where
  "upper s = map upper_char s"

subsection \<open>Floating-point values\<close>

datatype pyfloat = Fin real | PInf | NInf | NaN

text \<open>Division of two finite numbers as numpy divides a column: a zero divisor gives an
  infinity or NaN, never an exception.\<close>

definition fdiv :: "real \<Rightarrow> real \<Rightarrow> pyfloat" where
  "fdiv a b =
     (if b \<noteq> 0 then Fin (a / b)
      else if 0 < a then PInf
      else if a < 0 then NInf
      else NaN)"

fun fminus1 :: "pyfloat \<Rightarrow> pyfloat" where
  "fminus1 (Fin x) = Fin (x - 1)"
| "fminus1 PInf = PInf"
| "fminus1 NInf = NInf"
| "fminus1 NaN = NaN"

fun fadd :: "pyfloat \<Rightarrow> pyfloat \<Rightarrow> pyfloat" where
  "fadd (Fin x) (Fin y) = Fin (x + y)"
| "fadd NaN _ = NaN"
| "fadd _ NaN = NaN"
| "fadd PInf NInf = NaN"
| "fadd NInf PInf = NaN"
| "fadd PInf _ = PInf"
| "fadd _ PInf = PInf"
| "fadd NInf _ = NInf"
| "fadd _ NInf = NInf"

text \<open>The builtin \<^verbatim>\<open>sum\<close>: it starts from 0 and adds from the left.\<close>

definition py_sum :: "pyfloat list \<Rightarrow> pyfloat" where
  "py_sum vs = foldl fadd (Fin 0) vs"

subsection \<open>The event-window calculator (\<^verbatim>\<open>compute_event_windows\<close>)\<close>

text \<open>A row of the price table as it is passed in: \<open>date\<close> is a timestamp in seconds,
  which \<^verbatim>\<open>pd.to_datetime(...).dt.date\<close> cuts down to its day.\<close>

record price =
  ticker :: string
  date :: int
  close :: real

text \<open>A row of the price table after the preprocessing: the day and the daily return
  have been added, and \<^verbatim>\<open>prev_close\<close> has been dropped again.\<close>

record price_row =
  row_ticker :: string
  row_date :: int
  row_close :: real
  daily_return :: pyfloat

text \<open>A row of the events table. \<open>detected_ticker\<close> and \<open>detected_tickers\<close> are
  \<open>None\<close> when the column is absent or holds \<^verbatim>\<open>None\<close>; \<open>other_columns\<close> stands
  for the headline's columns, which the function copies and never reads.\<close>

record 'a event =
  detected_ticker :: "string option"
  detected_tickers :: "string list option"
  event_date :: int
  other_columns :: 'a

text \<open>A row of the returned table: the event's columns, \<^verbatim>\<open>ar_1\<close> .. \<^verbatim>\<open>ar_N\<close> as
  a list, and \<^verbatim>\<open>car_1_3\<close>. A cell is \<open>None\<close> for Python's \<^verbatim>\<open>None\<close>.\<close>

record 'a event_returns =
  ev :: "'a event"
  ar :: "pyfloat option list"
  car_1_3 :: "pyfloat option"

definition normalize_dates :: "price list \<Rightarrow> price list" where
  "normalize_dates ps = map (\<lambda>p. p\<lparr>date := date p div 86400\<rparr>) ps"

text \<open>\<^verbatim>\<open>sort_values(["ticker", "date"])\<close>: a stable sort on the pair.\<close>

definition sorted_prices :: "price list \<Rightarrow> price list" where
  "sorted_prices ps = sort_key (\<lambda>p. (ticker p, date p)) (normalize_dates ps)"

text \<open>\<^verbatim>\<open>groupby("ticker")["close"].shift(1)\<close> and the division: walking down the
  table, \<open>prev\<close> holds for each ticker the close of its latest row so far. A ticker's
  first row has no previous close, and its daily return is NaN.\<close>

fun add_daily_return :: "(string \<rightharpoonup> real) \<Rightarrow> price list \<Rightarrow> price_row list" where
  "add_daily_return prev [] = []"
| "add_daily_return prev (p # ps) =
     \<lparr>row_ticker = ticker p, row_date = date p, row_close = close p,
      daily_return = (case prev (ticker p) of
                        None \<Rightarrow> NaN
                      | Some c \<Rightarrow> fminus1 (fdiv (close p) c))\<rparr>
     # add_daily_return (prev(ticker p \<mapsto> close p)) ps"

text \<open>\<^verbatim>\<open>ticker_groups\<close>: a dictionary from each ticker of the table to its rows.\<close>

definition ticker_groups :: "price_row list \<Rightarrow> (string \<rightharpoonup> price_row list)" where
  "ticker_groups rows t =
     (let g = filter (\<lambda>r. row_ticker r = t) rows in if g = [] then None else Some g)"

text \<open>The value \<^verbatim>\<open>t\<close> of the loop body, which is \<^verbatim>\<open>None\<close>, a string or a list.\<close>

datatype pyval = PyNone | PyStr string | PyList "string list"

fun truthy :: "pyval \<Rightarrow> bool" where
  "truthy PyNone = False"
| "truthy (PyStr s) = (s \<noteq> [])"
| "truthy (PyList l) = (l \<noteq> [])"

definition py_or :: "pyval \<Rightarrow> pyval \<Rightarrow> pyval" where
  "py_or a b = (if truthy a then a else b)"

fun first_of_list :: "pyval \<Rightarrow> pyval" where
  "first_of_list (PyList (x # xs)) = PyStr x"
| "first_of_list v = v"

text \<open>Lines 48 to 59: the ticker an event is looked up under, \<open>None\<close> when the code
  takes the branch "no ticker detected".\<close>

definition event_ticker :: "'a event \<Rightarrow> string option" where
  "event_ticker e =
     (let t = py_or (case detected_ticker e of None \<Rightarrow> PyNone | Some s \<Rightarrow> PyStr s)
                    (case detected_tickers e of None \<Rightarrow> PyNone | Some l \<Rightarrow> PyList l);
          t = first_of_list t
      in if \<not> truthy t then None
         else (case t of PyStr s \<Rightarrow> Some (upper s) | _ \<Rightarrow> None))"

text \<open>Lines 73 to 80: the cell \<^verbatim>\<open>ar_d\<close>. When several rows carry the target date the
  code takes the first.\<close>

definition forward_return :: "price_row list \<Rightarrow> int \<Rightarrow> pyfloat option" where
  "forward_return price_ts target_date =
     (case filter (\<lambda>r. row_date r = target_date) price_ts of
        [] \<Rightarrow> None
      | r # _ \<Rightarrow> Some (daily_return r))"

text \<open>Line 84, \<^verbatim>\<open>[v for v in ar_vals if v is not None]\<close>. NaN and the infinities are
  floats, not \<^verbatim>\<open>None\<close>, and stay in the list.\<close>

fun not_none :: "'a option list \<Rightarrow> 'a list" where
  "not_none [] = []"
| "not_none (None # vs) = not_none vs"
| "not_none (Some x # vs) = x # not_none vs"

definition no_data :: "'a event \<Rightarrow> int \<Rightarrow> 'a event_returns" where
  "no_data e forward_days =
     \<lparr>ev = e, ar = map (\<lambda>d. None) [1..forward_days], car_1_3 = None\<rparr>"

definition event_window ::
  "(string \<rightharpoonup> price_row list) \<Rightarrow> int \<Rightarrow> 'a event \<Rightarrow> 'a event_returns" where
  "event_window groups forward_days e =
     (case event_ticker e of
        None \<Rightarrow> no_data e forward_days
      | Some t \<Rightarrow>
          (case groups t of
             None \<Rightarrow> no_data e forward_days
           | Some price_ts \<Rightarrow>
               (let ar_vals = map (\<lambda>d. forward_return price_ts (event_date e + d))
                                  [1..forward_days];
                    numeric_vals = not_none ar_vals
                in \<lparr>ev = e, ar = ar_vals,
                    car_1_3 = (if numeric_vals \<noteq> [] then Some (py_sum numeric_vals)
                               else None)\<rparr>)))"

definition compute_event_windows ::
  "'a event list \<Rightarrow> price list \<Rightarrow> int \<Rightarrow> 'a event_returns list" where
  "compute_event_windows exploded_events_df price_df forward_days =
     (let rows = add_daily_return Map.empty (sorted_prices price_df);
          groups = ticker_groups rows
      in map (event_window groups forward_days) exploded_events_df)"

text \<open>For the proofs: the dictionary \<open>prev\<close> of \<open>add_daily_return\<close> after the rows
  \<open>ps\<close> have been walked.\<close>

definition latest_close :: "(string \<rightharpoonup> real) \<Rightarrow> price list \<Rightarrow> (string \<rightharpoonup> real)" where
  "latest_close prev ps = foldl (\<lambda>m p. m(ticker p \<mapsto> close p)) prev ps"

text \<open>A small events table and price table: one headline about AAPL on day 10, and
  AAPL closes on the days 10, 11 and 12 (passed in unsorted, the second with a time of
  day). Day 13 has no price.\<close>

definition window_events :: "unit event list" where
  "window_events =
     [\<lparr>detected_ticker = Some ''AAPL'', detected_tickers = None, event_date = 10,
       other_columns = ()\<rparr>]"

definition window_prices :: "price list" where
  "window_prices =
     [\<lparr>ticker = ''AAPL'', date = 11 * 86400 + 3600, close = 101\<rparr>,
      \<lparr>ticker = ''AAPL'', date = 10 * 86400, close = 100\<rparr>,
      \<lparr>ticker = ''AAPL'', date = 12 * 86400, close = 9898 / 100\<rparr>]"

text \<open>The same headline dated day 9, the day before the first AAPL price: the first
  day of its window is the first observation of AAPL.\<close>

definition first_observation_events :: "unit event list" where
  "first_observation_events =
     [\<lparr>detected_ticker = Some ''AAPL'', detected_tickers = None, event_date = 9,
       other_columns = ()\<rparr>]"

subsection \<open>The ticker detector (\<^verbatim>\<open>detect_tickers_in_text\<close>)\<close>

text \<open>An entry of the lookup table. \<open>aliases\<close> is \<open>None\<close> when the dictionary has no key
  \<^verbatim>\<open>"aliases"\<close>, which \<^verbatim>\<open>meta.get("aliases", [])\<close> reads as the empty list.\<close>

record ticker_meta =
  meta_ticker :: string
  name :: "string option"
  aliases :: "string list option"

type_synonym lookup = "(string \<times> ticker_meta) list"

definition get_aliases :: "ticker_meta \<Rightarrow> string list" where
  "get_aliases m = (case aliases m of None \<Rightarrow> [] | Some xs \<Rightarrow> xs)"

text \<open>\<^verbatim>\<open>re.findall(r"\$([A-Za-z]{1,6})", text)\<close>: scanning from the left, a dollar sign
  followed by letters gives the first six of them at most, and the scan goes on behind
  the match.\<close>

function cashtags :: "string \<Rightarrow> string list" where
  "cashtags [] = []"
| "cashtags (c # cs) =
     (if c = CHR ''$'' \<and> takeWhile is_letter cs \<noteq> []
      then take 6 (takeWhile is_letter cs)
           # cashtags (drop (length (take 6 (takeWhile is_letter cs))) cs)
      else cashtags cs)"
  by pat_completeness auto
termination
  by (relation "measure length") auto

text \<open>\<^verbatim>\<open>\b\<close> at position \<open>i\<close> of \<open>s\<close>: exactly one of the characters before and after
  the position is a word character (the ends of the string count as none).\<close>

definition word_boundary :: "string \<Rightarrow> nat \<Rightarrow> bool" where
  "word_boundary s i =
     ((0 < i \<and> is_word_char (s ! (i - 1))) \<noteq> (i < length s \<and> is_word_char (s ! i)))"

text \<open>\<^verbatim>\<open>re.search(r"\b" + re.escape(p) + r"\b", s)\<close>: the escaped pattern is the literal
  \<open>p\<close>, so the search succeeds when \<open>p\<close> occurs at some position with a word boundary on
  both sides.\<close>

definition whole_word_at :: "string \<Rightarrow> string \<Rightarrow> nat \<Rightarrow> bool" where
  "whole_word_at p s i =
     (take (length p) (drop i s) = p \<and> word_boundary s i \<and> word_boundary s (i + length p))"

definition search_whole_word :: "string \<Rightarrow> string \<Rightarrow> bool" where
  "search_whole_word p s = list_ex (whole_word_at p s) [0..<Suc (length s)]"

text \<open>\<^verbatim>\<open>a in s\<close> on strings: \<open>a\<close> occurs in \<open>s\<close>.\<close>

definition py_in :: "string \<Rightarrow> string \<Rightarrow> bool" where
  "py_in a s = list_ex (\<lambda>i. take (length a) (drop i s) = a) [0..<Suc (length s)]"

text \<open>\<^verbatim>\<open>re.findall(r"[A-Za-z0-9]+", s)\<close>: the maximal runs of letters and digits.\<close>

function alnum_runs :: "string \<Rightarrow> string list" where
  "alnum_runs [] = []"
| "alnum_runs (c # cs) =
     (if is_alnum c
      then (c # takeWhile is_alnum cs) # alnum_runs (dropWhile is_alnum cs)
      else alnum_runs cs)"
  by pat_completeness auto
termination
  by (relation "measure length") (auto simp: length_dropWhile_le less_Suc_eq_le)

text \<open>\<^verbatim>\<open>re.findall(r"[A-Za-z0-9]{3,}", s)\<close>: the quantifier is greedy, so a run of three
  or more is matched whole, and inside a shorter run no match starts.\<close>

definition significant_tokens :: "string \<Rightarrow> string list" where
  "significant_tokens s = filter (\<lambda>tok. 3 \<le> length tok) (alnum_runs s)"

text \<open>The set \<^verbatim>\<open>found\<close> is a list without repetitions; \<^verbatim>\<open>found.add(t)\<close> is
  \<open>List.insert t found\<close>.\<close>

text \<open>Layer 1, lines 64 to 67.\<close>

definition cashtag_layer :: "string \<Rightarrow> lookup \<Rightarrow> string list \<Rightarrow> string list" where
  "cashtag_layer text lookup found =
     foldl (\<lambda>found match. if upper match \<in> set (map fst lookup)
                            then List.insert (upper match) found else found)
           found (cashtags text)"

text \<open>Layer 2, lines 70 to 73.\<close>

definition exact_token_layer :: "string \<Rightarrow> lookup \<Rightarrow> string list \<Rightarrow> string list" where
  "exact_token_layer text_lower lookup found =
     foldl (\<lambda>found (t, meta). if search_whole_word (lower t) text_lower
                               then List.insert t found else found)
           found lookup"

text \<open>Layer 3, lines 76 to 89: one pass of the loop body.\<close>

definition alias_step :: "string \<Rightarrow> string list \<Rightarrow> string \<times> ticker_meta \<Rightarrow> string list" where
  "alias_step text_lower found entry =
     (let t = fst entry; meta = snd entry;
          found1 = (if list_ex (\<lambda>alias. alias \<noteq> [] \<and> py_in alias text_lower) (get_aliases meta)
                    then List.insert t found else found)
      in if t \<in> set found1 then found1
         else (case name meta of
                 None \<Rightarrow> found1
               | Some n \<Rightarrow> if n \<noteq> [] \<and> py_in (lower n) text_lower
                           then List.insert t found1 else found1))"

definition alias_layer :: "string \<Rightarrow> lookup \<Rightarrow> string list \<Rightarrow> string list" where
  "alias_layer text_lower lookup found = foldl (alias_step text_lower) found lookup"

text \<open>The matches of the layers 1 to 3.\<close>

definition exact_matches :: "string \<Rightarrow> lookup \<Rightarrow> string list" where
  "exact_matches text lookup =
     alias_layer (lower text) lookup
       (exact_token_layer (lower text) lookup (cashtag_layer text lookup []))"

text \<open>Layer 4, lines 92 to 105. \<^verbatim>\<open>difflib.get_close_matches(tok, alias_list, n=3,
  cutoff=0.85)\<close> belongs to the standard library and is the parameter
  \<open>get_close_matches\<close>. \<^verbatim>\<open>alias_map\<close> is filled in the order of the lookup, a later
  owner of an alias replacing an earlier one. Where \<^verbatim>\<open>alias_map.get(m)\<close> is \<^verbatim>\<open>None\<close>
  the code adds \<^verbatim>\<open>None\<close> to the set, which the last line drops again; here nothing is
  added.\<close>

definition alias_pairs :: "lookup \<Rightarrow> (string \<times> string) list" where
  "alias_pairs lookup = concat (map (\<lambda>(t, meta). map (\<lambda>a. (a, t)) (get_aliases meta)) lookup)"

definition alias_map :: "lookup \<Rightarrow> (string \<rightharpoonup> string)" where
  "alias_map lookup = map_of (rev (alias_pairs lookup))"

definition alias_list :: "lookup \<Rightarrow> string list" where
  "alias_list lookup = map fst (alias_pairs lookup)"

definition fuzzy_layer ::
  "(string \<Rightarrow> string list \<Rightarrow> string list) \<Rightarrow> string \<Rightarrow> lookup \<Rightarrow> string list \<Rightarrow> string list" where
  "fuzzy_layer get_close_matches text_lower lookup found =
     foldl (\<lambda>found tok.
              foldl (\<lambda>found m. case alias_map lookup m of
                                  None \<Rightarrow> found
                                | Some t \<Rightarrow> List.insert t found)
                    found (get_close_matches tok (alias_list lookup)))
           found (significant_tokens text_lower)"

definition detect_tickers_in_text ::
  "(string \<Rightarrow> string list \<Rightarrow> string list) \<Rightarrow> string \<Rightarrow> lookup \<Rightarrow> string list" where
  "detect_tickers_in_text get_close_matches text lookup =
     (if text = [] \<or> lookup = [] then []
      else
        (let found = exact_matches text lookup;
             found = (if found = [] then fuzzy_layer get_close_matches (lower text) lookup found
                      else found)
         in sort (filter (\<lambda>t. t \<noteq> []) found)))"

text \<open>The condition under which layer 3 adds the key of an entry: a non-empty alias
  occurs in the lowercased text, or the lowercased name does.\<close>

definition alias_hit :: "string \<Rightarrow> ticker_meta \<Rightarrow> bool" where
  "alias_hit s meta \<longleftrightarrow>
     (\<exists>alias\<in>set (get_aliases meta). alias \<noteq> [] \<and> py_in alias s) \<or>
     (case name meta of None \<Rightarrow> False | Some n \<Rightarrow> n \<noteq> [] \<and> py_in (lower n) s)"

text \<open>A lookup table of two symbols, and a stand-in for \<^verbatim>\<open>get_close_matches\<close> that
  finds the alias \<^verbatim>\<open>microsoft\<close> for the misspelt token \<^verbatim>\<open>microsft\<close> and nothing
  else.\<close>

definition example_lookup :: lookup where
  "example_lookup =
     [(''AAPL'', \<lparr>meta_ticker = ''AAPL'', name = Some ''Apple Inc'',
                  aliases = Some [''aapl'', ''apple'', ''apple inc'', ''inc'']\<rparr>),
      (''MSFT'', \<lparr>meta_ticker = ''MSFT'', name = None,
                  aliases = Some [''microsoft'', ''msft'']\<rparr>)]"

definition example_close_matches :: "string \<Rightarrow> string list \<Rightarrow> string list" where
  "example_close_matches tok possibilities =
     (if tok = ''microsft'' then filter (\<lambda>a. a = ''microsoft'') possibilities else [])"

subsection \<open>The price directory\<close>

text \<open>A table as \<^verbatim>\<open>pd.read_csv\<close> returns it: the column labels and the rows of cells.\<close>

record 'c table =
  header :: "string list"
  body :: "'c list list"

text \<open>An entry of the price directory: its name, and the table that \<^verbatim>\<open>read_csv\<close>
  makes of it, \<open>None\<close> when \<^verbatim>\<open>read_csv\<close> raises.\<close>

record 'c csv_file =
  file_name :: string
  content :: "'c table option"

text \<open>\<^verbatim>\<open>glob("*.csv")\<close>: the names that end in \<^verbatim>\<open>.csv\<close>; \<^verbatim>\<open>sorted\<close> orders the
  paths of one directory by name.\<close>

definition is_csv_name :: "string \<Rightarrow> bool" where
  "is_csv_name n = (4 \<le> length n \<and> drop (length n - 4) n = ''.csv'')"

definition csv_files :: "'c csv_file list \<Rightarrow> 'c csv_file list" where
  "csv_files dir = sort_key file_name (filter (\<lambda>f. is_csv_name (file_name f)) dir)"

text \<open>\<^verbatim>\<open>Path.stem\<close>: the name without its last suffix; a dot at the front or at the end
  of the name starts no suffix.\<close>

definition stem :: "string \<Rightarrow> string" where
  "stem n =
     (let k = length (takeWhile (\<lambda>c. c \<noteq> CHR ''.'') (rev n))
      in if k < length n \<and> 0 < k \<and> 1 < length n - k then take (length n - k - 1) n else n)"

text \<open>\<^verbatim>\<open>str.strip()\<close>: the ASCII whitespace is the characters 9 to 13 and 28 to 32.\<close>

definition is_space_char :: "char \<Rightarrow> bool" where
  "is_space_char c =
     ((9 \<le> (of_char c :: nat) \<and> (of_char c :: nat) \<le> 13) \<or>
      (28 \<le> (of_char c :: nat) \<and> (of_char c :: nat) \<le> 32))"

definition strip :: "string \<Rightarrow> string" where
  "strip s = rev (dropWhile is_space_char (rev (dropWhile is_space_char s)))"

subsection \<open>The lookup builder (\<^verbatim>\<open>build_ticker_lookup\<close>)\<close>

text \<open>Lines 20 to 28. A cell is \<open>None\<close> for NaN (an empty field) and otherwise
  \<open>Some s\<close> with \<open>s\<close> the \<^verbatim>\<open>str\<close> of its value. The name is read from the first row, in
  the first column whose normalised label is \<^verbatim>\<open>name\<close>, or else \<^verbatim>\<open>company\<close>; with no
  such column the name stays \<^verbatim>\<open>None\<close>, and with no row \<^verbatim>\<open>df.iloc[0]\<close> raises, which
  the \<^verbatim>\<open>except\<close> turns into \<^verbatim>\<open>None\<close>.\<close>

definition first_row_cell :: "string option table \<Rightarrow> string \<Rightarrow> string option" where
  "first_row_cell df label =
     (case body df of
        [] \<Rightarrow> None
      | row # _ \<Rightarrow>
          (case map_of (zip (map (\<lambda>c. strip (lower c)) (header df)) row) label of
             None \<Rightarrow> None
           | Some cell \<Rightarrow> cell))"

definition read_name :: "string option table option \<Rightarrow> string option" where
  "read_name df_opt =
     (case df_opt of
        None \<Rightarrow> None
      | Some df \<Rightarrow>
          (let cols = map (\<lambda>c. strip (lower c)) (header df)
           in if ''name'' \<in> set cols then first_row_cell df ''name''
              else if ''company'' \<in> set cols then first_row_cell df ''company''
              else None))"

text \<open>Lines 36 to 43: the set \<^verbatim>\<open>aliases\<close>, a list without repetitions.\<close>

definition name_aliases :: "string \<Rightarrow> string list \<Rightarrow> string list" where
  "name_aliases n alias_set =
     foldl (\<lambda>alias_set token. if 2 < length token then List.insert token alias_set
                                else alias_set)
           (List.insert (lower n) alias_set) (alnum_runs (lower n))"

definition ticker_entry :: "string option csv_file \<Rightarrow> string \<times> ticker_meta" where
  "ticker_entry csv_path =
     (let ticker = upper (stem (file_name csv_path));
          display_name = (case read_name (content csv_path) of
                            None \<Rightarrow> None
                          | Some v \<Rightarrow> Some (strip v));
          alias_set = [lower ticker];
          alias_set = (case display_name of
                         None \<Rightarrow> alias_set
                       | Some n \<Rightarrow> if n \<noteq> [] then name_aliases n alias_set else alias_set)
      in (ticker, \<lparr>meta_ticker = ticker, name = display_name,
                   aliases = Some (sort alias_set)\<rparr>))"

text \<open>The loop over the sorted files. \<^verbatim>\<open>lookup[ticker] = ...\<close> replaces the entry of a
  ticker that is already there and appends a new one.\<close>

definition build_ticker_lookup :: "string option csv_file list \<Rightarrow> lookup" where
  "build_ticker_lookup prices_dir =
     foldl (\<lambda>lookup csv_path. AList.update (fst (ticker_entry csv_path))
                                            (snd (ticker_entry csv_path)) lookup)
           [] (csv_files prices_dir)"

text \<open>A price directory of three CSV files and a file that is none.\<close>

definition example_dir :: "string option csv_file list" where
  "example_dir =
     [\<lparr>file_name = ''t.csv'',
       content = Some \<lparr>header = [''date'', ''Company''],
                       body = [[Some ''2020-01-02'', Some ''AT and T'']]\<rparr>\<rparr>,
      \<lparr>file_name = ''notes.txt'', content = None\<rparr>,
      \<lparr>file_name = ''msft.csv'',
       content = Some \<lparr>header = [''Date'', ''Close''],
                       body = [[Some ''2020-01-02'', Some ''160.62'']]\<rparr>\<rparr>,
      \<lparr>file_name = ''aapl.csv'',
       content = Some \<lparr>header = [''Date'', ''Close'', '' Name ''],
                       body = [[Some ''2020-01-02'', Some ''300.35'', Some ''Apple Inc ''],
                               [Some ''2020-01-03'', Some ''297.43'', None]]\<rparr>\<rparr>]"

subsection \<open>The price loader (\<^verbatim>\<open>load_price_panel\<close>)\<close>

text \<open>The exceptions that leave the function: the two \<^verbatim>\<open>FileNotFoundError\<close> of the lines
  26 and 34, the \<^verbatim>\<open>ValueError\<close> of line 57, whose message is made of the name of the
  file, the list of its normalised columns and the list of the required columns, and an
  exception of \<^verbatim>\<open>read_csv\<close>, which the function does not catch.\<close>

datatype error =
    FolderNotFound
  | NoCsvFiles
  | MissingColumns string "string list" "string list"
  | ReadError string

definition required :: "string list" where
  "required = [''date'', ''open'', ''high'', ''low'', ''close'', ''volume'']"

text \<open>Line 51, \<^verbatim>\<open>df.columns = [c.lower().strip() for c in df.columns]\<close>.\<close>

definition normalize_columns :: "'c table \<Rightarrow> 'c table" where
  "normalize_columns df = df\<lparr>header := map (\<lambda>c. strip (lower c)) (header df)\<rparr>"

text \<open>Line 55, \<^verbatim>\<open>all(col in df.columns for col in required)\<close>.\<close>

definition has_required_columns :: "'c table \<Rightarrow> bool" where
  "has_required_columns df = list_all (\<lambda>col. col \<in> set (header df)) required"

text \<open>A row of the returned panel. A cell is \<open>None\<close> where the row of the file is
  shorter than the header, which pandas fills with NaN; a date is \<open>None\<close> for
  \<^verbatim>\<open>NaT\<close>.\<close>

record 'c panel_row =
  panel_date :: "int option"
  panel_open :: "'c option"
  panel_high :: "'c option"
  panel_low :: "'c option"
  panel_close :: "'c option"
  panel_volume :: "'c option"
  panel_adj_close :: "'c option"
  panel_ticker :: string

record 'c panel =
  panel_rows :: "'c panel_row list"
  source_files :: "string list"

text \<open>\<^verbatim>\<open>df[col]\<close>: the column with the label \<open>col\<close>, the first one here when the label
  occurs twice.\<close>

definition column :: "'c table \<Rightarrow> string \<Rightarrow> 'c option list" where
  "column df col = map (\<lambda>row. map_of (zip (header df) row) col) (body df)"

text \<open>Lines 68 to 71. \<^verbatim>\<open>pd.to_datetime\<close> belongs to pandas and is a parameter, once
  as it is called first (\<open>None\<close> when it raises) and once with
  \<^verbatim>\<open>errors="coerce"\<close>.\<close>

definition parse_dates ::
  "('c option list \<Rightarrow> int option list option) \<Rightarrow> ('c option list \<Rightarrow> int option list) \<Rightarrow>
   'c option list \<Rightarrow> int option list" where
  "parse_dates to_datetime to_datetime_coerce dates =
     (case to_datetime dates of
        Some parsed \<Rightarrow> parsed
      | None \<Rightarrow> to_datetime_coerce dates)"

text \<open>Lines 63 to 74: the frame \<^verbatim>\<open>df_clean\<close> of one file, row by row.\<close>

definition clean_frame ::
  "('c option list \<Rightarrow> int option list option) \<Rightarrow> ('c option list \<Rightarrow> int option list) \<Rightarrow>
   string \<Rightarrow> 'c table \<Rightarrow> 'c panel_row list" where
  "clean_frame to_datetime to_datetime_coerce file df =
     map (\<lambda>(d, row).
            \<lparr>panel_date = d,
             panel_open = map_of (zip (header df) row) ''open'',
             panel_high = map_of (zip (header df) row) ''high'',
             panel_low = map_of (zip (header df) row) ''low'',
             panel_close = map_of (zip (header df) row) ''close'',
             panel_volume = map_of (zip (header df) row) ''volume'',
             panel_adj_close = map_of (zip (header df) row) ''close'',
             panel_ticker = upper (stem file)\<rparr>)
         (zip (parse_dates to_datetime to_datetime_coerce (column df ''date'')) (body df))"

text \<open>The loop of the lines 42 to 74. The first file that cannot be read or lacks a
  required column ends it.\<close>

fun load_frames ::
  "('c option list \<Rightarrow> int option list option) \<Rightarrow> ('c option list \<Rightarrow> int option list) \<Rightarrow>
   'c csv_file list \<Rightarrow> error + 'c panel_row list list" where
  "load_frames to_datetime to_datetime_coerce [] = Inr []"
| "load_frames to_datetime to_datetime_coerce (csv_path # csv_paths) =
     (case content csv_path of
        None \<Rightarrow> Inl (ReadError (file_name csv_path))
      | Some df0 \<Rightarrow>
          (let df = normalize_columns df0
           in if \<not> has_required_columns df
              then Inl (MissingColumns (file_name csv_path) (header df) required)
              else (case load_frames to_datetime to_datetime_coerce csv_paths of
                      Inl e \<Rightarrow> Inl e
                    | Inr all_frames \<Rightarrow>
                        Inr (clean_frame to_datetime to_datetime_coerce (file_name csv_path) df
                             # all_frames))))"

text \<open>\<^verbatim>\<open>sort_values(["ticker", "date"])\<close>, a stable sort with \<^verbatim>\<open>NaT\<close> last.\<close>

definition panel_key :: "'c panel_row \<Rightarrow> string \<times> nat \<times> int" where
  "panel_key r =
     (panel_ticker r, case panel_date r of None \<Rightarrow> (1, 0) | Some d \<Rightarrow> (0, d))"

text \<open>The directory is \<open>None\<close> when \<^verbatim>\<open>DATA_DIR.exists()\<close> is false.\<close>

definition load_price_panel ::
  "('c option list \<Rightarrow> int option list option) \<Rightarrow> ('c option list \<Rightarrow> int option list) \<Rightarrow>
   'c csv_file list option \<Rightarrow> error + 'c panel" where
  "load_price_panel to_datetime to_datetime_coerce data_dir =
     (case data_dir of
        None \<Rightarrow> Inl FolderNotFound
      | Some entries \<Rightarrow>
          (if csv_files entries = [] then Inl NoCsvFiles
           else (case load_frames to_datetime to_datetime_coerce (csv_files entries) of
                   Inl e \<Rightarrow> Inl e
                 | Inr all_frames \<Rightarrow>
                     Inr \<lparr>panel_rows = sort_key panel_key (concat all_frames),
                          source_files = map file_name (csv_files entries)\<rparr>)))"

text \<open>A price directory whose second CSV file has no volume column, and one whose only
  CSV file has all the columns, in mixed case and with blanks. The dates are day
  numbers already, and the stand-ins for \<^verbatim>\<open>pd.to_datetime\<close> leave them as they are.\<close>

definition complete_table :: "int table" where
  "complete_table =
     \<lparr>header = [''Date'', '' Open'', ''HIGH'', ''low '', ''Close'', ''Volume''],
      body = [[11, 101, 103, 100, 102, 5000], [10, 100, 102, 99, 101, 4000]]\<rparr>"


definition good_dir :: "int csv_file list" where
  "good_dir = [\<lparr>file_name = ''readme.md'', content = None\<rparr>,
               \<lparr>file_name = ''aapl.csv'', content = Some complete_table\<rparr>]"


definition to_datetime_days :: "int option list \<Rightarrow> int option list option" where
  "to_datetime_days dates = Some dates"

definition to_datetime_coerce_days :: "int option list \<Rightarrow> int option list" where
  "to_datetime_coerce_days dates = dates"

subsection \<open>The event-window calculator on a store\<close>

text \<open>To see what \<^verbatim>\<open>compute_event_windows\<close> does to its arguments, the tables are put
  into a store: a list of objects, an address being a position of the list. A statement
  of the function either makes a new object, which goes to the end of the store
  (\<^verbatim>\<open>copy\<close>, \<^verbatim>\<open>sort_values\<close>, \<^verbatim>\<open>reset_index\<close>, \<^verbatim>\<open>drop\<close>), or writes into the object
  that a variable refers to (\<^verbatim>\<open>df[col] = ...\<close>, \<^verbatim>\<open>out.at[i, col] = ...\<close>). An object is a
  table with the columns of one of the stages of the computation; a statement applied to
  a table without the columns it reads fails, as the \<^verbatim>\<open>KeyError\<close> of pandas does.\<close>

datatype 'a frame =
    Prices "price list"
  | WithPrev "(price \<times> real option) list"
  | WithReturn "(price \<times> real option \<times> pyfloat) list"
  | Rows "price_row list"
  | Events "'a event list"
  | Returns "'a event_returns list"

type_synonym 'a store = "'a frame list"

definition lookup_frame :: "'a store \<Rightarrow> nat \<Rightarrow> 'a frame option" where
  "lookup_frame h a = (if a < length h then Some (h ! a) else None)"

definition alloc :: "'a frame \<Rightarrow> 'a store \<Rightarrow> nat \<times> 'a store" where
  "alloc x h = (length h, h @ [x])"

text \<open>\<^verbatim>\<open>df.copy()\<close> and \<^verbatim>\<open>df.reset_index(drop=True)\<close>: a new object with the rows of the
  old one (the index of a table is not modelled).\<close>

definition copy :: "nat \<Rightarrow> 'a store \<Rightarrow> (nat \<times> 'a store) option" where
  "copy a h = (case lookup_frame h a of None \<Rightarrow> None | Some x \<Rightarrow> Some (alloc x h))"

definition reset_index :: "nat \<Rightarrow> 'a store \<Rightarrow> (nat \<times> 'a store) option" where
  "reset_index a h = (case lookup_frame h a of None \<Rightarrow> None | Some x \<Rightarrow> Some (alloc x h))"

text \<open>Line 28, \<^verbatim>\<open>price_df["date"] = pd.to_datetime(price_df["date"]).dt.date\<close>: a write
  into the object.\<close>

definition set_dates :: "nat \<Rightarrow> 'a store \<Rightarrow> 'a store option" where
  "set_dates a h =
     (case lookup_frame h a of
        Some (Prices ps) \<Rightarrow> Some (h[a := Prices (normalize_dates ps)])
      | _ \<Rightarrow> None)"

text \<open>Line 29, \<^verbatim>\<open>sort_values(["ticker", "date"])\<close>: a new object.\<close>

definition sort_values :: "nat \<Rightarrow> 'a store \<Rightarrow> (nat \<times> 'a store) option" where
  "sort_values a h =
     (case lookup_frame h a of
        Some (Prices ps) \<Rightarrow> Some (alloc (Prices (sort_key (\<lambda>p. (ticker p, date p)) ps)) h)
      | _ \<Rightarrow> None)"

text \<open>Line 32, \<^verbatim>\<open>price_df["prev_close"] = price_df.groupby("ticker")["close"].shift(1)\<close>:
  a write into the object. \<open>prev\<close> holds for each ticker the close of its latest row so
  far.\<close>

fun prev_closes :: "(string \<rightharpoonup> real) \<Rightarrow> price list \<Rightarrow> real option list" where
  "prev_closes prev [] = []"
| "prev_closes prev (p # ps) = prev (ticker p) # prev_closes (prev(ticker p \<mapsto> close p)) ps"

definition add_prev_close :: "nat \<Rightarrow> 'a store \<Rightarrow> 'a store option" where
  "add_prev_close a h =
     (case lookup_frame h a of
        Some (Prices ps) \<Rightarrow> Some (h[a := WithPrev (zip ps (prev_closes Map.empty ps))])
      | _ \<Rightarrow> None)"

text \<open>Line 33, \<^verbatim>\<open>price_df["daily_return"] = (price_df["close"] / price_df["prev_close"]) - 1\<close>:
  a write into the object. A missing previous close is NaN, and so is the return.\<close>

definition add_daily_return_column :: "nat \<Rightarrow> 'a store \<Rightarrow> 'a store option" where
  "add_daily_return_column a h =
     (case lookup_frame h a of
        Some (WithPrev rs) \<Rightarrow>
          Some (h[a := WithReturn
                         (map (\<lambda>(p, prev_close).
                                 (p, prev_close,
                                  case prev_close of
                                    None \<Rightarrow> NaN
                                  | Some c \<Rightarrow> fminus1 (fdiv (close p) c))) rs)])
      | _ \<Rightarrow> None)"

text \<open>Line 34, \<^verbatim>\<open>price_df.drop(columns=["prev_close"])\<close>: a new object.\<close>

definition drop_prev_close :: "nat \<Rightarrow> 'a store \<Rightarrow> (nat \<times> 'a store) option" where
  "drop_prev_close a h =
     (case lookup_frame h a of
        Some (WithReturn rs) \<Rightarrow>
          Some (alloc (Rows (map (\<lambda>(p, prev_close, r).
                                    \<lparr>row_ticker = ticker p, row_date = date p,
                                     row_close = close p, daily_return = r\<rparr>) rs)) h)
      | _ \<Rightarrow> None)"

text \<open>Line 37: the tables of \<^verbatim>\<open>ticker_groups\<close> are made by \<^verbatim>\<open>groupby\<close> and
  \<^verbatim>\<open>set_index\<close>, and nothing writes into them; they are kept as values.\<close>

definition read_groups :: "nat \<Rightarrow> 'a store \<Rightarrow> (string \<rightharpoonup> price_row list) option" where
  "read_groups a h =
     (case lookup_frame h a of
        Some (Rows rows) \<Rightarrow> Some (ticker_groups rows)
      | _ \<Rightarrow> None)"

text \<open>Lines 41 to 44: the columns \<^verbatim>\<open>ar_1\<close> .. \<^verbatim>\<open>ar_N\<close> and \<^verbatim>\<open>car_1_3\<close>, all
  \<^verbatim>\<open>None\<close>, are written into \<^verbatim>\<open>out\<close>.\<close>

definition add_return_columns :: "int \<Rightarrow> nat \<Rightarrow> 'a store \<Rightarrow> 'a store option" where
  "add_return_columns forward_days a h =
     (case lookup_frame h a of
        Some (Events es) \<Rightarrow> Some (h[a := Returns (map (\<lambda>e. no_data e forward_days) es)])
      | _ \<Rightarrow> None)"

definition frame_length :: "nat \<Rightarrow> 'a store \<Rightarrow> nat option" where
  "frame_length a h =
     (case lookup_frame h a of
        Some (Returns rs) \<Rightarrow> Some (length rs)
      | _ \<Rightarrow> None)"

text \<open>Lines 47 to 88, one pass of the loop: the cells \<^verbatim>\<open>out.at[i, ...]\<close> of the row
  \<open>i\<close> are written into \<^verbatim>\<open>out\<close>.\<close>

definition write_row ::
  "(string \<rightharpoonup> price_row list) \<Rightarrow> int \<Rightarrow> nat \<Rightarrow> nat \<Rightarrow> 'a store \<Rightarrow> 'a store option" where
  "write_row groups forward_days a i h =
     (case lookup_frame h a of
        Some (Returns rs) \<Rightarrow>
          if i < length rs
          then Some (h[a := Returns (rs[i := event_window groups forward_days (ev (rs ! i))])])
          else None
      | _ \<Rightarrow> None)"

fun write_rows ::
  "(string \<rightharpoonup> price_row list) \<Rightarrow> int \<Rightarrow> nat \<Rightarrow> nat list \<Rightarrow> 'a store \<Rightarrow> 'a store option" where
  "write_rows groups forward_days a [] h = Some h"
| "write_rows groups forward_days a (i # rest) h =
     (case write_row groups forward_days a i h of
        None \<Rightarrow> None
      | Some h' \<Rightarrow> write_rows groups forward_days a rest h')"

text \<open>The function: its arguments are the addresses of the two tables, its result the
  address of \<^verbatim>\<open>out\<close> and the store it leaves.\<close>

definition compute_event_windows_store ::
  "nat \<Rightarrow> nat \<Rightarrow> int \<Rightarrow> 'a store \<Rightarrow> (nat \<times> 'a store) option" where
  "compute_event_windows_store exploded_events_df price_df forward_days h =
     do {
       (price_df, h) \<leftarrow> copy price_df h;
       h \<leftarrow> set_dates price_df h;
       (sorted_df, h) \<leftarrow> sort_values price_df h;
       (price_df, h) \<leftarrow> reset_index sorted_df h;
       h \<leftarrow> add_prev_close price_df h;
       h \<leftarrow> add_daily_return_column price_df h;
       (price_df, h) \<leftarrow> drop_prev_close price_df h;
       groups \<leftarrow> read_groups price_df h;
       (copied, h) \<leftarrow> copy exploded_events_df h;
       (out, h) \<leftarrow> reset_index copied h;
       h \<leftarrow> add_return_columns forward_days out h;
       n \<leftarrow> frame_length out h;
       h \<leftarrow> write_rows groups forward_days out [0..<n] h;
       Some (out, h)
     }"

section \<open>Theorems\<close>

subsection \<open>The rows of the event-window table\<close>

lemma ev_event_window: "ev (event_window groups n e) = e"
  by (simp add: event_window_def no_data_def Let_def split: option.splits)

text \<open>
  Claim C6. For every events table and every price table the function returns one row
  per input event, in the order of the input: the list of the events carried by the
  returned rows is the input list itself, whatever prices are available.
\<close>

theorem compute_event_windows_one_row_per_event:
  "length (compute_event_windows events prices n) = length events \<and>
   map ev (compute_event_windows events prices n) = events"
  by (simp add: compute_event_windows_def Let_def ev_event_window comp_def)

subsection \<open>Forward returns\<close>

lemma latest_close_simps [simp]:
  "latest_close m [] = m"
  "latest_close m (p # ps) = latest_close (m(ticker p \<mapsto> close p)) ps"
  by (simp_all add: latest_close_def)

lemma latest_close_append: "latest_close m (xs @ ys) = latest_close (latest_close m xs) ys"
  by (simp add: latest_close_def)

lemma latest_close_absent: "\<forall>p\<in>set xs. ticker p \<noteq> t \<Longrightarrow> latest_close m xs t = m t"
  by (induction xs arbitrary: m) auto

lemma latest_close_snoc: "latest_close m (xs @ [p]) (ticker p) = Some (close p)"
  by (simp add: latest_close_append)

lemma add_daily_return_append:
  "add_daily_return m (xs @ ys) = add_daily_return m xs @ add_daily_return (latest_close m xs) ys"
  by (induction xs arbitrary: m) auto

lemma length_add_daily_return [simp]: "length (add_daily_return m xs) = length xs"
  by (induction xs arbitrary: m) auto

lemma add_daily_return_nth:
  assumes "j < length xs"
  shows "add_daily_return m xs ! j =
    \<lparr>row_ticker = ticker (xs ! j), row_date = date (xs ! j), row_close = close (xs ! j),
     daily_return = (case latest_close m (take j xs) (ticker (xs ! j)) of
                       None \<Rightarrow> NaN
                     | Some c \<Rightarrow> fminus1 (fdiv (close (xs ! j)) c))\<rparr>"
proof -
  have "xs = take j xs @ xs ! j # drop (Suc j) xs"
    using assms by (simp add: id_take_nth_drop)
  then have "add_daily_return m xs ! j =
      (add_daily_return m (take j xs) @ add_daily_return (latest_close m (take j xs)) (xs ! j # drop (Suc j) xs)) ! j"
    by (metis add_daily_return_append)
  also have "\<dots> = hd (add_daily_return (latest_close m (take j xs)) (xs ! j # drop (Suc j) xs))"
    using assms by (simp add: nth_append)
  finally show ?thesis by simp
qed

lemma filter_first:
  assumes "j < length xs" "Q (xs ! j)" "\<forall>k<j. \<not> Q (xs ! k)"
  shows "filter Q xs = xs ! j # filter Q (drop (Suc j) xs)"
proof -
  have "filter Q (take j xs) = []"
    using assms by (auto simp: filter_empty_conv in_set_conv_nth)
  moreover have "xs = take j xs @ xs ! j # drop (Suc j) xs"
    using assms by (simp add: id_take_nth_drop)
  ultimately show ?thesis using assms(2)
    by (metis append_Nil filter.simps(2) filter_append)
qed

lemma sorted_prices_sorted: "sorted (map (\<lambda>p. (ticker p, date p)) (sorted_prices ps))"
  by (simp add: sorted_prices_def)

lemma sorted_ticker_mono:
  assumes "sorted (map (\<lambda>p. (ticker p, date p)) P)" "k \<le> j" "j < length P"
  shows "ticker (P ! k) \<le> ticker (P ! j)"
proof -
  have "(ticker (P ! k), date (P ! k)) \<le> (ticker (P ! j), date (P ! j))"
    using assms sorted_nth_mono[of "map (\<lambda>p. (ticker p, date p)) P" k j] by simp
  then show ?thesis by (auto simp: less_eq_prod_def)
qed

lemma first_of_ticker:
  assumes "sorted (map (\<lambda>p. (ticker p, date p)) P)" "j < length P"
    and "\<not> (0 < j \<and> ticker (P ! (j - 1)) = ticker (P ! j))"
  shows "\<forall>p\<in>set (take j P). ticker p \<noteq> ticker (P ! j)"
proof
  fix p assume "p \<in> set (take j P)"
  then obtain k where k: "k < j" "p = P ! k"
    using assms(2) by (auto simp: in_set_conv_nth)
  then have j: "0 < j" by simp
  have "ticker (P ! k) \<le> ticker (P ! (j - 1))"
    using sorted_ticker_mono[OF assms(1), of k "j - 1"] k assms(2) by simp
  moreover have "ticker (P ! (j - 1)) \<le> ticker (P ! j)"
    using sorted_ticker_mono[OF assms(1), of "j - 1" j] assms(2) by simp
  moreover have "ticker (P ! (j - 1)) \<noteq> ticker (P ! j)"
    using assms(3) j by simp
  ultimately show "ticker p \<noteq> ticker (P ! j)"
    using k by auto
qed

lemma latest_close_sorted:
  assumes "sorted (map (\<lambda>p. (ticker p, date p)) P)" "j < length P"
  shows "latest_close Map.empty (take j P) (ticker (P ! j)) =
         (if 0 < j \<and> ticker (P ! (j - 1)) = ticker (P ! j) then Some (close (P ! (j - 1))) else None)"
proof (cases "0 < j \<and> ticker (P ! (j - 1)) = ticker (P ! j)")
  case True
  then have "take j P = take (j - 1) P @ [P ! (j - 1)]"
    using assms(2) by (metis Suc_pred' less_imp_diff_less take_Suc_conv_app_nth)
  then show ?thesis using True latest_close_snoc[of Map.empty "take (j - 1) P" "P ! (j - 1)"]
    by simp
next
  case False
  then show ?thesis
    using first_of_ticker[OF assms False] by (simp add: latest_close_absent)
qed


lemma upto_nth_day: "1 \<le> d \<Longrightarrow> d \<le> n \<Longrightarrow> [1..n] ! nat (d - 1) = d"
  by (simp add: nth_upto)

lemma ar_cell:
  assumes "1 \<le> d" "d \<le> n"
  shows "ar (event_window (ticker_groups rows) n e) ! nat (d - 1) =
    (case event_ticker e of
       None \<Rightarrow> None
     | Some s \<Rightarrow>
        (case filter (\<lambda>r. row_ticker r = s \<and> row_date r = event_date e + d) rows of
           [] \<Rightarrow> None
         | r # _ \<Rightarrow> Some (daily_return r)))"
proof -
  have len: "nat (d - 1) < length [1..n]" using assms by simp
  show ?thesis
  proof (cases "event_ticker e")
    case None
    then show ?thesis using len by (simp add: event_window_def no_data_def)
  next
    case (Some s)
    show ?thesis
    proof (cases "filter (\<lambda>r. row_ticker r = s) rows = []")
      case True
      then have "filter (\<lambda>r. row_ticker r = s \<and> row_date r = event_date e + d) rows = []"
        by (auto simp: filter_empty_conv)
      with True Some show ?thesis using len
        by (simp add: event_window_def no_data_def ticker_groups_def)
    next
      case False
      have "filter (\<lambda>r. row_date r = event_date e + d) (filter (\<lambda>r. row_ticker r = s) rows) =
            filter (\<lambda>r. row_ticker r = s \<and> row_date r = event_date e + d) rows"
        by (simp add: conj_commute)
      with False Some show ?thesis using len assms
        by (simp add: event_window_def ticker_groups_def Let_def forward_return_def upto_nth_day)
    qed
  qed
qed

lemma length_ar_event_window: "length (ar (event_window g n e)) = nat n"
  by (simp add: event_window_def no_data_def Let_def split: option.splits)

lemma rows_filter_none:
  assumes "\<forall>p\<in>set P. \<not> (ticker p = s \<and> date p = t)"
  shows "filter (\<lambda>r. row_ticker r = s \<and> row_date r = t) (add_daily_return m P) = []"
proof -
  have "\<forall>k<length P. \<not> (row_ticker (add_daily_return m P ! k) = s \<and> row_date (add_daily_return m P ! k) = t)"
    using assms by (simp add: add_daily_return_nth)
  then show ?thesis
    by (auto simp: filter_empty_conv in_set_conv_nth)
qed

lemma rows_filter_first:
  assumes "sorted (map (\<lambda>p. (ticker p, date p)) P)" "j < length P"
    and "ticker (P ! j) = s" "date (P ! j) = t"
    and "\<forall>k<j. \<not> (ticker (P ! k) = s \<and> date (P ! k) = t)"
  shows "\<exists>r rs. filter (\<lambda>r. row_ticker r = s \<and> row_date r = t) (add_daily_return Map.empty P) = r # rs \<and>
     daily_return r = (if 0 < j \<and> ticker (P ! (j - 1)) = s
                        then fminus1 (fdiv (close (P ! j)) (close (P ! (j - 1)))) else NaN)"
proof -
  let ?rows = "add_daily_return Map.empty P"
  let ?Q = "\<lambda>r. row_ticker r = s \<and> row_date r = t"
  have "\<forall>k<j. \<not> ?Q (?rows ! k)"
    using assms(2,5) by (simp add: add_daily_return_nth)
  moreover have "?Q (?rows ! j)"
    using assms(2,3,4) by (simp add: add_daily_return_nth)
  ultimately have "filter ?Q ?rows = ?rows ! j # filter ?Q (drop (Suc j) ?rows)"
    using assms(2) by (intro filter_first) simp_all
  moreover have "daily_return (?rows ! j) =
      (if 0 < j \<and> ticker (P ! (j - 1)) = s
       then fminus1 (fdiv (close (P ! j)) (close (P ! (j - 1)))) else NaN)"
    using assms(2,3) latest_close_sorted[OF assms(1,2)]
    by (simp add: add_daily_return_nth)
  ultimately show ?thesis by blast
qed

lemma event_ticker_detected:
  "detected_ticker e = Some t \<Longrightarrow> t \<noteq> [] \<Longrightarrow> event_ticker e = Some (upper t)"
  by (simp add: event_ticker_def py_or_def)

lemma event_ticker_absent:
  assumes "detected_ticker e = None \<or> detected_ticker e = Some []"
    and "detected_tickers e = None \<or> detected_tickers e = Some []"
  shows "event_ticker e = None"
  using assms by (auto simp: event_ticker_def py_or_def)

lemma upper_AAPL: "upper ''AAPL'' = ''AAPL''"
  by (simp add: upper_def upper_char_def is_lower_char_def)

lemma sorted_window_prices:
  "sorted_prices window_prices =
     [\<lparr>ticker = ''AAPL'', date = 10, close = 100\<rparr>,
      \<lparr>ticker = ''AAPL'', date = 11, close = 101\<rparr>,
      \<lparr>ticker = ''AAPL'', date = 12, close = 9898 / 100\<rparr>]"
  by (simp add: sorted_prices_def normalize_dates_def window_prices_def)

lemma window_event_ticker: "event_ticker (window_events ! 0) = Some ''AAPL''"
  by (simp add: window_events_def event_ticker_detected upper_AAPL)

lemma window_rows:
  "add_daily_return Map.empty (sorted_prices window_prices) =
     [\<lparr>row_ticker = ''AAPL'', row_date = 10, row_close = 100, daily_return = NaN\<rparr>,
      \<lparr>row_ticker = ''AAPL'', row_date = 11, row_close = 101, daily_return = Fin (1 / 100)\<rparr>,
      \<lparr>row_ticker = ''AAPL'', row_date = 12, row_close = 9898 / 100,
       daily_return = Fin (- (2 / 100))\<rparr>]"
  by (simp add: sorted_window_prices fdiv_def)

lemma upto_1_3: "[1..3::int] = [1, 2, 3]"
  by (simp add: upto.simps)


lemma window_events_facts:
  "length window_events = 1" "event_date (window_events ! 0) = 10"
  by (simp_all add: window_events_def)

text \<open>
  The cells of a window, as the code fills them. Let \<open>P\<close> be the price table with
  its dates cut to days and sorted by ticker and date, and take an event with date \<open>E\<close>
  and a day \<open>d\<close> of the window \<open>1..N\<close>; \<open>event_ticker\<close> is the event's ticker in
  upper case.
  \<^item> The window has \<open>N\<close> cells.
  \<^item> When the event has no ticker, \<^verbatim>\<open>ar_d\<close> is \<^verbatim>\<open>None\<close>.
  \<^item> When \<open>P\<close> has no row for the ticker at day \<open>E + d\<close> (in particular when it has no
    row for the ticker at all), \<^verbatim>\<open>ar_d\<close> is \<^verbatim>\<open>None\<close>.
  \<^item> When \<open>P ! j\<close> is the first row for the ticker at day \<open>E + d\<close>, \<^verbatim>\<open>ar_d\<close> is the
    \<^verbatim>\<open>daily_return\<close> cell of that row: \<open>close (P ! j) / close (P ! (j - 1)) - 1\<close> if
    the row before it is of the same ticker, and NaN if \<open>P ! j\<close> is the ticker's first
    observation.
\<close>

lemma forward_return_cells:
  assumes "i < length events" and "1 \<le> d" and "d \<le> n"
  shows
   "length (ar (compute_event_windows events prices n ! i)) = nat n \<and>
    (event_ticker (events ! i) = None \<longrightarrow>
       ar (compute_event_windows events prices n ! i) ! nat (d - 1) = None) \<and>
    (\<forall>s. event_ticker (events ! i) = Some s \<longrightarrow>
       (\<forall>p\<in>set (sorted_prices prices).
           \<not> (ticker p = s \<and> date p = event_date (events ! i) + d)) \<longrightarrow>
       ar (compute_event_windows events prices n ! i) ! nat (d - 1) = None) \<and>
    (\<forall>s j. event_ticker (events ! i) = Some s \<longrightarrow>
       j < length (sorted_prices prices) \<longrightarrow>
       ticker (sorted_prices prices ! j) = s \<longrightarrow>
       date (sorted_prices prices ! j) = event_date (events ! i) + d \<longrightarrow>
       (\<forall>k<j. \<not> (ticker (sorted_prices prices ! k) = s \<and>
                   date (sorted_prices prices ! k) = event_date (events ! i) + d)) \<longrightarrow>
       ar (compute_event_windows events prices n ! i) ! nat (d - 1) =
         Some (if 0 < j \<and> ticker (sorted_prices prices ! (j - 1)) = s
               then fminus1 (fdiv (close (sorted_prices prices ! j))
                                  (close (sorted_prices prices ! (j - 1))))
               else NaN))"
proof -
  let ?P = "sorted_prices prices"
  let ?rows = "add_daily_return Map.empty ?P"
  let ?e = "events ! i"
  have row: "compute_event_windows events prices n ! i = event_window (ticker_groups ?rows) n ?e"
    using assms(1) by (simp add: compute_event_windows_def Let_def)
  have cell: "ar (compute_event_windows events prices n ! i) ! nat (d - 1) =
    (case event_ticker ?e of
       None \<Rightarrow> None
     | Some s \<Rightarrow>
        (case filter (\<lambda>r. row_ticker r = s \<and> row_date r = event_date ?e + d) ?rows of
           [] \<Rightarrow> None
         | r # _ \<Rightarrow> Some (daily_return r)))"
    unfolding row by (rule ar_cell[OF assms(2,3)])
  have A: "length (ar (compute_event_windows events prices n ! i)) = nat n"
    unfolding row by (rule length_ar_event_window)
  have B: "event_ticker ?e = None \<longrightarrow> ar (compute_event_windows events prices n ! i) ! nat (d - 1) = None"
    using cell by simp
  have C: "\<forall>s. event_ticker ?e = Some s \<longrightarrow>
       (\<forall>p\<in>set ?P. \<not> (ticker p = s \<and> date p = event_date ?e + d)) \<longrightarrow>
       ar (compute_event_windows events prices n ! i) ! nat (d - 1) = None"
    using cell by (simp add: rows_filter_none)
  have D: "\<forall>s j. event_ticker ?e = Some s \<longrightarrow>
       j < length ?P \<longrightarrow> ticker (?P ! j) = s \<longrightarrow> date (?P ! j) = event_date ?e + d \<longrightarrow>
       (\<forall>k<j. \<not> (ticker (?P ! k) = s \<and> date (?P ! k) = event_date ?e + d)) \<longrightarrow>
       ar (compute_event_windows events prices n ! i) ! nat (d - 1) =
         Some (if 0 < j \<and> ticker (?P ! (j - 1)) = s
               then fminus1 (fdiv (close (?P ! j)) (close (?P ! (j - 1))))
               else NaN)"
  proof (intro allI impI)
    fix s j
    assume h: "event_ticker ?e = Some s" "j < length ?P" "ticker (?P ! j) = s"
      "date (?P ! j) = event_date ?e + d"
      "\<forall>k<j. \<not> (ticker (?P ! k) = s \<and> date (?P ! k) = event_date ?e + d)"
    obtain r rs where
      "filter (\<lambda>r. row_ticker r = s \<and> row_date r = event_date ?e + d) ?rows = r # rs"
      "daily_return r = (if 0 < j \<and> ticker (?P ! (j - 1)) = s
                        then fminus1 (fdiv (close (?P ! j)) (close (?P ! (j - 1)))) else NaN)"
      using rows_filter_first[OF sorted_prices_sorted h(2,3,4,5)] by blast
    then show "ar (compute_event_windows events prices n ! i) ! nat (d - 1) =
         Some (if 0 < j \<and> ticker (?P ! (j - 1)) = s
               then fminus1 (fdiv (close (?P ! j)) (close (?P ! (j - 1))))
               else NaN)"
      using cell h(1) by simp
  qed
  from A B C D show ?thesis by blast
qed

text \<open>An instance: the second day of the window of \<open>window_events\<close> is day 12, the
  third row of the sorted table, and its return is 98.98 / 101 - 1.\<close>

lemma forward_return_cells_instance:
  "0 < length window_events \<and>
   ar (compute_event_windows window_events window_prices 3 ! 0) ! 1 = Some (Fin (- (2 / 100)))"
proof -
  note cell = forward_return_cells[where i=0 and events=window_events and d=2 and n=3
      and prices=window_prices, THEN conjunct2, THEN conjunct2, THEN conjunct2, rule_format,
      where s="''AAPL''" and j=2]
  have "ar (compute_event_windows window_events window_prices 3 ! 0) ! nat (2 - 1) =
     Some (if 0 < (2::nat) \<and> ticker (sorted_prices window_prices ! (2 - 1)) = ''AAPL''
           then fminus1 (fdiv (close (sorted_prices window_prices ! 2))
                              (close (sorted_prices window_prices ! (2 - 1))))
           else NaN)"
    by (rule cell) (auto simp: window_event_ticker sorted_window_prices window_events_facts
        less_Suc_eq numeral_2_eq_2)
  then show ?thesis
    by (simp add: sorted_window_prices fdiv_def window_events_facts)
qed

lemma first_observation_event_ticker:
  "event_ticker (first_observation_events ! 0) = Some ''AAPL''"
  by (simp add: first_observation_events_def event_ticker_detected upper_AAPL)

text \<open>
  Claim C1: a defect of the code. The claim gives \<^verbatim>\<open>None\<close> for \<^verbatim>\<open>ar_d\<close> when the
  record at the target date is the first observation of the symbol, whose daily return
  is undefined; so do the specification and the other no-data branches of the function.
  The lines 73 to 78 copy the \<^verbatim>\<open>daily_return\<close> cell of the row found at the target
  date without asking whether it is defined, and for a first observation that cell is
  NaN. For the headline of day 9 and the AAPL closes 100, 101 and 98.98 on the days 10,
  11 and 12, the code gives \<^verbatim>\<open>ar_1\<close> = NaN where the claim has \<^verbatim>\<open>None\<close>, and the
  NaN makes the cumulative return NaN where the defined returns 0.01 and -0.02 sum to
  -0.01.
\<close>

theorem first_observation_return_is_nan:
  "ar (compute_event_windows first_observation_events window_prices 3 ! 0) =
     [Some NaN, Some (Fin (1 / 100)), Some (Fin (- (2 / 100)))] \<and>
   ar (compute_event_windows first_observation_events window_prices 3 ! 0) ! 0 \<noteq> None \<and>
   car_1_3 (compute_event_windows first_observation_events window_prices 3 ! 0) = Some NaN"
  using first_observation_event_ticker
  by (simp add: compute_event_windows_def window_rows ticker_groups_def event_window_def
      forward_return_def upto_1_3 Let_def first_observation_events_def py_sum_def)

subsection \<open>The cumulative return\<close>











subsection \<open>Characters of the ticker detector\<close>

lemma is_upper_char_nat: "is_upper_char c \<longleftrightarrow> 65 \<le> (of_char c :: nat) \<and> (of_char c :: nat) \<le> 90"
  by (simp add: is_upper_char_def less_eq_char_def)

lemma is_lower_char_nat: "is_lower_char c \<longleftrightarrow> 97 \<le> (of_char c :: nat) \<and> (of_char c :: nat) \<le> 122"
  by (simp add: is_lower_char_def less_eq_char_def)

lemma lower_char_upper: "is_upper_char c \<Longrightarrow> is_lower_char (lower_char c)"
  by (simp add: lower_char_def is_lower_char_nat) (simp add: is_upper_char_nat)

lemma is_word_char_lower_char: "is_word_char c \<Longrightarrow> is_word_char (lower_char c)"
proof (cases "is_upper_char c")
  case True
  then show ?thesis
    using lower_char_upper[OF True] by (simp add: is_word_char_def is_alnum_def is_letter_def)
next
  case False
  then show "is_word_char c \<Longrightarrow> ?thesis" by (simp add: lower_char_def)
qed

lemma lower_char_space: "lower_char c = CHR '' '' \<longleftrightarrow> c = CHR '' ''"
proof
  assume h: "lower_char c = CHR '' ''"
  show "c = CHR '' ''"
  proof (cases "is_upper_char c")
    case True
    from lower_char_upper[OF True] h have "is_lower_char (CHR '' '')" by simp
    then show ?thesis by (simp add: is_lower_char_nat)
  next
    case False
    with h show ?thesis by (simp add: lower_char_def)
  qed
next
  assume "c = CHR '' ''"
  then show "lower_char c = CHR '' ''"
    by (simp add: lower_char_def is_upper_char_nat)
qed

lemma lower_eq_space: "lower n = '' '' \<longleftrightarrow> n = '' ''"
  by (cases n) (auto simp: lower_def lower_char_space)

lemma not_letter_dollar: "\<not> is_letter (CHR ''$'')"
  by (simp add: is_letter_def is_upper_char_nat is_lower_char_nat)

lemma not_word_char_space: "\<not> is_word_char (CHR '' '')"
  by (simp add: is_word_char_def is_alnum_def is_letter_def is_digit_char_def
      is_upper_char_nat is_lower_char_nat less_eq_char_def)

lemma length_lower [simp]: "length (lower s) = length s"
  by (simp add: lower_def)

lemma length_upper [simp]: "length (upper s) = length s"
  by (simp add: upper_def)

lemma upper_Nil_iff [simp]: "upper s = [] \<longleftrightarrow> s = []"
  by (simp add: upper_def)

lemma lower_Nil_iff [simp]: "lower s = [] \<longleftrightarrow> s = []"
  by (simp add: lower_def)

subsection \<open>The layers as sets\<close>

lemma set_foldl_insert_if:
  "set (foldl (\<lambda>found x. if P x then List.insert (f x) found else found) found xs) =
   set found \<union> {f x | x. x \<in> set xs \<and> P x}"
  by (induction xs arbitrary: found) auto

lemma distinct_foldl_insert_if:
  "distinct found \<Longrightarrow>
   distinct (foldl (\<lambda>found x. if P x then List.insert (f x) found else found) found xs)"
  by (induction xs arbitrary: found) auto

lemma set_cashtag_layer:
  "set (cashtag_layer text lookup found) =
   set found \<union> {upper m | m. m \<in> set (cashtags text) \<and> upper m \<in> fst ` set lookup}"
  unfolding cashtag_layer_def by (simp add: set_foldl_insert_if)

lemma distinct_cashtag_layer:
  "distinct found \<Longrightarrow> distinct (cashtag_layer text lookup found)"
  unfolding cashtag_layer_def by (rule distinct_foldl_insert_if)

lemma exact_token_layer_alt:
  "exact_token_layer s lookup found =
   foldl (\<lambda>found e. if search_whole_word (lower (fst e)) s then List.insert (fst e) found else found)
     found lookup"
  unfolding exact_token_layer_def by (simp add: split_def)

lemma set_exact_token_layer:
  "set (exact_token_layer s lookup found) =
   set found \<union> {t. t \<in> fst ` set lookup \<and> search_whole_word (lower t) s}"
  unfolding exact_token_layer_alt by (force simp: set_foldl_insert_if)

lemma distinct_exact_token_layer:
  "distinct found \<Longrightarrow> distinct (exact_token_layer s lookup found)"
  unfolding exact_token_layer_alt by (rule distinct_foldl_insert_if)

lemma set_alias_step:
  "set (alias_step s found e) = set found \<union> (if alias_hit s (snd e) then {fst e} else {})"
  by (auto simp: alias_step_def alias_hit_def Let_def list_ex_iff split: option.splits)

lemma distinct_alias_step: "distinct found \<Longrightarrow> distinct (alias_step s found e)"
  by (auto simp: alias_step_def Let_def split: option.splits)

lemma set_alias_layer:
  "set (alias_layer s lookup found) =
   set found \<union> {fst e | e. e \<in> set lookup \<and> alias_hit s (snd e)}"
  unfolding alias_layer_def
  by (induction lookup arbitrary: found) (auto simp: set_alias_step split: if_splits)

lemma distinct_alias_layer: "distinct found \<Longrightarrow> distinct (alias_layer s lookup found)"
  unfolding alias_layer_def
  by (induction lookup arbitrary: found) (auto simp: distinct_alias_step)

lemma set_exact_matches:
  "set (exact_matches text lookup) =
     {upper m | m. m \<in> set (cashtags text) \<and> upper m \<in> fst ` set lookup} \<union>
     {t. t \<in> fst ` set lookup \<and> search_whole_word (lower t) (lower text)} \<union>
     {fst e | e. e \<in> set lookup \<and> alias_hit (lower text) (snd e)}"
  unfolding exact_matches_def
  by (simp add: set_alias_layer set_exact_token_layer set_cashtag_layer Un_commute Un_left_commute)

lemma distinct_exact_matches: "distinct (exact_matches text lookup)"
  unfolding exact_matches_def
  by (simp add: distinct_alias_layer distinct_exact_token_layer distinct_cashtag_layer)

lemma distinct_fuzzy_inner:
  "distinct found \<Longrightarrow>
   distinct (foldl (\<lambda>found m. case am m of None \<Rightarrow> found | Some t \<Rightarrow> List.insert t found) found ms)"
  by (induction ms arbitrary: found) (auto split: option.splits)

lemma distinct_fuzzy_outer:
  "distinct found \<Longrightarrow>
   distinct (foldl (\<lambda>found tok.
               foldl (\<lambda>found m. case am m of None \<Rightarrow> found | Some t \<Rightarrow> List.insert t found)
                     found (g tok))
             found toks)"
  by (induction toks arbitrary: found) (auto simp: distinct_fuzzy_inner)

lemma distinct_fuzzy_layer:
  "distinct found \<Longrightarrow> distinct (fuzzy_layer gcm s lookup found)"
  unfolding fuzzy_layer_def by (rule distinct_fuzzy_outer)

subsection \<open>The result of the ticker detector\<close>

lemma detect_sorted_distinct:
  "sorted (detect_tickers_in_text gcm text lookup) \<and>
   distinct (detect_tickers_in_text gcm text lookup)"
  by (simp add: detect_tickers_in_text_def Let_def distinct_exact_matches distinct_fuzzy_layer)

lemma cashtags_Nil: "cashtags [] = []"
  by simp

lemma not_search_whole_word_Nil: "\<not> search_whole_word p []"
  by (simp add: search_whole_word_def whole_word_at_def word_boundary_def)

lemma py_in_Nil: "py_in a [] \<longleftrightarrow> a = []"
  by (auto simp: py_in_def)

lemma not_alias_hit_Nil: "\<not> alias_hit [] meta"
  by (auto simp: alias_hit_def py_in_Nil split: option.splits)

lemma exact_matches_empty_text: "exact_matches [] lookup = []"
proof -
  have "set (exact_matches [] lookup) = {}"
    by (simp add: set_exact_matches not_search_whole_word_Nil not_alias_hit_Nil lower_def)
  then show ?thesis by simp
qed

lemma exact_matches_empty_lookup: "exact_matches text [] = []"
proof -
  have "set (exact_matches text []) = {}"
    by (simp add: set_exact_matches)
  then show ?thesis by simp
qed

lemma exact_matches_nonempty:
  assumes "exact_matches text lookup \<noteq> []"
  shows "text \<noteq> []" and "lookup \<noteq> []"
  using assms exact_matches_empty_text exact_matches_empty_lookup by auto

lemma example_exact_matches:
  "exact_matches ''AAPL microsft'' example_lookup = [''AAPL'']"
  "exact_matches ''microsft'' example_lookup = []"
  "exact_matches ''hello'' example_lookup = []"
  by code_simp+

lemma example_fuzzy:
  "fuzzy_layer example_close_matches (lower ''AAPL microsft'') example_lookup [] = [''MSFT'']"
  "fuzzy_layer example_close_matches (lower ''microsft'') example_lookup [] = [''MSFT'']"
  "fuzzy_layer example_close_matches (lower ''hello'') example_lookup [] = []"
  by code_simp+

lemma example_lookup_nonempty: "example_lookup \<noteq> []"
  by (simp add: example_lookup_def)

text \<open>
  Claim C3. The fuzzy layer runs only when the layers 1 to 3 found nothing in the whole
  text. When they found something, the result is the sorted list of their matches (the
  last line of the function drops an empty symbol) and does not depend on
  \<^verbatim>\<open>get_close_matches\<close>, so a near-miss token adds nothing. When they found nothing,
  and text and lookup are not empty, the result is what the fuzzy layer finds.
\<close>

theorem fuzzy_fallback_only_without_exact_matches:
  "(exact_matches headline lookup \<noteq> [] \<longrightarrow>
      detect_tickers_in_text gcm headline lookup =
        sort (filter (\<lambda>t. t \<noteq> []) (exact_matches headline lookup))) \<and>
   (exact_matches headline lookup = [] \<longrightarrow> headline \<noteq> [] \<longrightarrow> lookup \<noteq> [] \<longrightarrow>
      detect_tickers_in_text gcm headline lookup =
        sort (filter (\<lambda>t. t \<noteq> []) (fuzzy_layer gcm (lower headline) lookup [])))"
proof (intro conjI impI)
  assume h: "exact_matches headline lookup \<noteq> []"
  then have "headline \<noteq> []" "lookup \<noteq> []" by (rule exact_matches_nonempty)+
  with h show "detect_tickers_in_text gcm headline lookup =
        sort (filter (\<lambda>t. t \<noteq> []) (exact_matches headline lookup))"
    by (simp add: detect_tickers_in_text_def Let_def)
next
  assume "exact_matches headline lookup = []" "headline \<noteq> []" "lookup \<noteq> []"
  then show "detect_tickers_in_text gcm headline lookup =
        sort (filter (\<lambda>t. t \<noteq> []) (fuzzy_layer gcm (lower headline) lookup []))"
    by (simp add: detect_tickers_in_text_def Let_def)
qed

text \<open>The text \<^verbatim>\<open>AAPL microsft\<close> holds the exact match \<^verbatim>\<open>AAPL\<close> and the near-miss
  token \<^verbatim>\<open>microsft\<close>, which the fuzzy layer would map to \<^verbatim>\<open>MSFT\<close>: the result is
  \<^verbatim>\<open>AAPL\<close> alone. On the text \<^verbatim>\<open>microsft\<close> the layers 1 to 3 find nothing and the
  fuzzy layer gives \<^verbatim>\<open>MSFT\<close>.\<close>

theorem fuzzy_fallback_only_without_exact_matches_witness:
  "detect_tickers_in_text example_close_matches ''AAPL microsft'' example_lookup = [''AAPL''] \<and>
   fuzzy_layer example_close_matches (lower ''AAPL microsft'') example_lookup [] = [''MSFT''] \<and>
   detect_tickers_in_text example_close_matches ''microsft'' example_lookup = [''MSFT'']"
  using fuzzy_fallback_only_without_exact_matches[where headline = "''AAPL microsft''" and lookup = example_lookup and gcm = example_close_matches]
    fuzzy_fallback_only_without_exact_matches[where headline = "''microsft''" and lookup = example_lookup and gcm = example_close_matches]
  by (simp add: example_exact_matches example_fuzzy example_lookup_nonempty)

subsection \<open>The one-space text\<close>

lemma cashtags_space: "cashtags '' '' = []"
  by simp

lemma not_search_whole_word_space: "\<not> search_whole_word p '' ''"
  by (simp add: search_whole_word_def whole_word_at_def word_boundary_def not_word_char_space)

lemma py_in_space: "py_in a '' '' \<longleftrightarrow> a = [] \<or> a = '' ''"
proof -
  have "take (length a) '' '' = a \<longleftrightarrow> a = [] \<or> a = '' ''"
    by (cases a) (auto simp: take_Cons')
  then show ?thesis
    by (auto simp: py_in_def)
qed

lemma alnum_runs_space: "alnum_runs '' '' = []"
  by (simp add: is_alnum_def is_letter_def is_digit_char_def is_upper_char_nat is_lower_char_nat
      less_eq_char_def)

lemma lower_space: "lower '' '' = '' ''"
  by (simp add: lower_def lower_char_space)

lemma detect_space:
  assumes "\<forall>e\<in>set lookup. '' '' \<notin> set (get_aliases (snd e)) \<and> name (snd e) \<noteq> Some '' ''"
  shows "detect_tickers_in_text gcm '' '' lookup = []"
proof -
  have "\<not> alias_hit '' '' (snd e)" if "e \<in> set lookup" for e
    using assms that by (auto simp: alias_hit_def py_in_space lower_eq_space split: option.splits)
  then have "set (exact_matches '' '' lookup) = {}"
    by (auto simp: set_exact_matches cashtags_space lower_space not_search_whole_word_space)
  then have "exact_matches '' '' lookup = []" by simp
  then show ?thesis
    by (simp add: detect_tickers_in_text_def Let_def fuzzy_layer_def significant_tokens_def
        lower_space alnum_runs_space)
qed

text \<open>
  Claim C8, amended. The result is always a sorted list without repetitions; it is the
  empty list when the text is empty, when the lookup is empty, and when neither the
  layers 1 to 3 nor the fuzzy layer match. For the text of one space it is the empty list
  for every lookup in which no alias and no name is the one-space string.
\<close>

theorem detect_result_sorted_distinct:
  "sorted (detect_tickers_in_text gcm headline lookup) \<and>
   distinct (detect_tickers_in_text gcm headline lookup) \<and>
   detect_tickers_in_text gcm [] lookup = [] \<and>
   detect_tickers_in_text gcm headline [] = [] \<and>
   (exact_matches headline lookup = [] \<longrightarrow> fuzzy_layer gcm (lower headline) lookup [] = [] \<longrightarrow>
      detect_tickers_in_text gcm headline lookup = []) \<and>
   ((\<forall>e\<in>set lookup. '' '' \<notin> set (get_aliases (snd e)) \<and> name (snd e) \<noteq> Some '' '') \<longrightarrow>
      detect_tickers_in_text gcm '' '' lookup = [])"
  using detect_sorted_distinct detect_space
  by (simp add: detect_tickers_in_text_def Let_def)

lemma example_lookup_no_space:
  "\<forall>e\<in>set example_lookup. '' '' \<notin> set (get_aliases (snd e)) \<and> name (snd e) \<noteq> Some '' ''"
  by (simp add: example_lookup_def get_aliases_def)

theorem detect_result_sorted_distinct_witness:
  "detect_tickers_in_text example_close_matches '' '' example_lookup = [] \<and>
   detect_tickers_in_text example_close_matches ''hello'' example_lookup = [] \<and>
   sorted (detect_tickers_in_text example_close_matches ''hello'' example_lookup) \<and>
   distinct (detect_tickers_in_text example_close_matches ''hello'' example_lookup)"
  using detect_result_sorted_distinct[where headline = "''hello''" and lookup = example_lookup and gcm = example_close_matches]
    example_lookup_no_space
  by (simp add: example_exact_matches example_fuzzy)

text \<open>The claim as it is written gives the empty list on the one-space text for every
  non-empty lookup. A lookup entry whose alias is the one-space string (the entry that
  \<^verbatim>\<open>build_ticker_lookup\<close> makes of a file named \<^verbatim>\<open> .csv\<close>) is found by layer 3 in
  that text.\<close>

theorem one_space_text_counterexample:
  "\<forall>gcm. detect_tickers_in_text gcm '' ''
      [('' '', \<lparr>meta_ticker = '' '', name = None, aliases = Some ['' '']\<rparr>)] = ['' '']"
proof
  fix gcm
  let ?L = "[('' '', \<lparr>meta_ticker = '' '', name = None, aliases = Some ['' '']\<rparr>)]"
  have e: "exact_matches '' '' ?L = ['' '']" by code_simp
  then show "detect_tickers_in_text gcm '' '' ?L = ['' '']"
    by (simp add: detect_tickers_in_text_def)
qed

subsection \<open>Cashtags\<close>

lemma takeWhile_before_dollar:
  "takeWhile is_letter (pre @ CHR ''$'' # rest) = takeWhile is_letter pre"
  by (simp add: takeWhile_append not_letter_dollar) (metis takeWhile_eq_all_conv)

lemma cashtags_behind_prefix:
  "set (cashtags (CHR ''$'' # rest)) \<subseteq> set (cashtags (pre @ CHR ''$'' # rest))"
proof (induction pre rule: length_induct)
  case (1 pre)
  show ?case
  proof (cases pre)
    case Nil
    then show ?thesis by simp
  next
    case (Cons c pre')
    let ?run = "takeWhile is_letter pre'"
    let ?k = "length (take 6 ?run)"
    have k: "?k \<le> length pre'"
      using length_takeWhile_le[of is_letter pre'] by simp
    have ih1: "set (cashtags (CHR ''$'' # rest)) \<subseteq> set (cashtags (pre' @ CHR ''$'' # rest))"
      using "1.IH" Cons by simp
    have ih2: "set (cashtags (CHR ''$'' # rest))
        \<subseteq> set (cashtags (drop ?k pre' @ CHR ''$'' # rest))"
      using "1.IH" Cons by simp
    have "drop ?k (pre' @ CHR ''$'' # rest) = drop ?k pre' @ CHR ''$'' # rest"
      using k by simp
    then show ?thesis
      using ih1 ih2 Cons by (auto simp: takeWhile_before_dollar simp del: cashtags.simps(2)
          simp add: cashtags.simps(2)[of c])
  qed
qed

lemma cashtags_at_dollar:
  assumes "m \<noteq> []" "\<forall>c\<in>set m. is_letter c" "length m \<le> 6"
    and "length m = 6 \<or> post = [] \<or> \<not> is_letter (hd post)"
  shows "m \<in> set (cashtags (CHR ''$'' # m @ post))"
proof -
  have run: "takeWhile is_letter (m @ post) = m @ takeWhile is_letter post"
    using assms(2) by (simp add: takeWhile_append)
  have "take 6 (m @ takeWhile is_letter post) = m"
  proof (cases "length m = 6")
    case True
    then show ?thesis by simp
  next
    case False
    with assms(4) have "takeWhile is_letter post = []"
      by (cases post) auto
    with assms(3) show ?thesis by simp
  qed
  with run assms(1) show ?thesis by simp
qed

lemma cashtag_found:
  assumes "m \<noteq> []" "\<forall>c\<in>set m. is_letter c" "length m \<le> 6"
    and "length m = 6 \<or> post = [] \<or> \<not> is_letter (hd post)"
  shows "m \<in> set (cashtags (pre @ CHR ''$'' # m @ post))"
  using cashtags_at_dollar[OF assms] cashtags_behind_prefix[of "m @ post" pre] by blast

lemma set_detect_exact:
  assumes "t \<in> set (exact_matches txt lookup)" "t \<noteq> []"
  shows "t \<in> set (detect_tickers_in_text gcm txt lookup)"
proof -
  have ne: "exact_matches txt lookup \<noteq> []" using assms(1) by auto
  then have "txt \<noteq> []" "lookup \<noteq> []" by (rule exact_matches_nonempty)+
  with ne assms show ?thesis
    by (simp add: detect_tickers_in_text_def Let_def)
qed

text \<open>
  Claim C4. Let the text hold a cashtag: a dollar sign followed by the letters \<open>m\<close>, one
  to six of them, where \<open>m\<close> is the whole run of letters or its first six. If the upper
  case of \<open>m\<close> is a key of the lookup, then the pattern of layer 1 finds \<open>m\<close> and the
  result contains the key.
\<close>

theorem cashtag_of_key_is_detected:
  assumes "txt = pre @ CHR ''$'' # m @ post"
    and "m \<noteq> []" and "\<forall>c\<in>set m. is_letter c" and "length m \<le> 6"
    and "length m = 6 \<or> post = [] \<or> \<not> is_letter (hd post)"
    and "upper m \<in> fst ` set lookup"
  shows "m \<in> set (cashtags txt) \<and> upper m \<in> set (detect_tickers_in_text gcm txt lookup)"
proof -
  have m: "m \<in> set (cashtags txt)"
    unfolding assms(1) by (rule cashtag_found[OF assms(2-5)])
  then have "upper m \<in> set (exact_matches txt lookup)"
    using assms(6) by (auto simp: set_exact_matches)
  moreover have "upper m \<noteq> []" using assms(2) by simp
  ultimately show ?thesis using m by (simp add: set_detect_exact)
qed

lemma example_keys: "fst ` set example_lookup = {''AAPL'', ''MSFT''}"
  by (simp add: example_lookup_def)

lemma upper_aapl: "upper ''aapl'' = ''AAPL''"
  by code_simp

lemma letters_aapl: "\<forall>c\<in>set ''aapl''. is_letter c"
  by (simp add: is_letter_def is_lower_char_nat)

theorem cashtag_of_key_is_detected_witness:
  "''aapl'' \<in> set (cashtags ''buy $aapl now'') \<and>
   ''AAPL'' \<in> set (detect_tickers_in_text example_close_matches ''buy $aapl now'' example_lookup)"
proof -
  have "''aapl'' \<in> set (cashtags ''buy $aapl now'') \<and>
     upper ''aapl'' \<in> set (detect_tickers_in_text example_close_matches ''buy $aapl now'' example_lookup)"
  proof (rule cashtag_of_key_is_detected[where pre = "''buy ''" and post = "'' now''"])
    show "''buy $aapl now'' = ''buy '' @ CHR ''$'' # ''aapl'' @ '' now''" by simp
    show "''aapl'' \<noteq> []" by simp
    show "\<forall>c\<in>set ''aapl''. is_letter c" by (rule letters_aapl)
    show "length ''aapl'' \<le> 6" by simp
    show "length ''aapl'' = 6 \<or> '' now'' = [] \<or> \<not> is_letter (hd '' now'')"
      by (simp add: is_letter_def is_lower_char_nat is_upper_char_nat)
    show "upper ''aapl'' \<in> fst ` set example_lookup"
      by (simp add: upper_aapl example_keys)
  qed
  then show ?thesis by (simp add: upper_aapl)
qed

subsection \<open>The bare ticker\<close>

lemma search_whole_word_self:
  assumes "s \<noteq> []" "is_word_char (hd s)" "is_word_char (last s)"
  shows "search_whole_word s s"
proof -
  have "word_boundary s 0"
    using assms(1,2) by (cases s) (auto simp: word_boundary_def)
  moreover have "word_boundary s (length s)"
    using assms(1,3) by (auto simp: word_boundary_def last_conv_nth)
  ultimately have "whole_word_at s s 0"
    by (simp add: whole_word_at_def)
  then show ?thesis
    unfolding search_whole_word_def list_ex_iff by (intro bexI[of _ 0]) auto
qed

lemma hd_last_lower:
  assumes "s \<noteq> []"
  shows "hd (lower s) = lower_char (hd s)" "last (lower s) = lower_char (last s)"
  using assms by (simp_all add: lower_def hd_map last_map)

lemma alias_found:
  assumes "(s, meta) \<in> set lookup" and "s \<noteq> []" and "lower s \<in> set (get_aliases meta)"
  shows "s \<in> set (detect_tickers_in_text gcm s lookup)"
proof -
  have "py_in (lower s) (lower s)"
    unfolding py_in_def list_ex_iff by (intro bexI[of _ 0]) auto
  moreover have "lower s \<noteq> []" using assms(2) by simp
  ultimately have "alias_hit (lower s) meta"
    using assms(3) unfolding alias_hit_def by blast
  then have "s \<in> set (exact_matches s lookup)"
    using assms(1) by (force simp: set_exact_matches)
  then show ?thesis using assms(2) by (rule set_detect_exact)
qed

text \<open>
  Claim C5, amended. For every lookup and every key \<open>s\<close> of it that is not empty and
  begins and ends with a word character (a letter, a digit or the underscore), the
  word-boundary pattern of layer 2 matches the lowercased key in the lowercased text \<open>s\<close>,
  layer 2 adds \<open>s\<close>, and the result for the text \<open>s\<close> contains \<open>s\<close>.
\<close>

theorem bare_ticker_is_detected:
  assumes "s \<in> fst ` set lookup" and "s \<noteq> []"
    and "is_word_char (hd s)" and "is_word_char (last s)"
  shows "search_whole_word (lower s) (lower s) \<and>
         s \<in> set (exact_token_layer (lower s) lookup found) \<and>
         s \<in> set (detect_tickers_in_text gcm s lookup)"
proof -
  have w: "search_whole_word (lower s) (lower s)"
    using assms(2-4) by (intro search_whole_word_self) (simp_all add: hd_last_lower is_word_char_lower_char)
  then have "s \<in> set (exact_matches s lookup)"
    using assms(1) by (simp add: set_exact_matches)
  then show ?thesis
    using w assms(1,2) by (simp add: set_exact_token_layer set_detect_exact)
qed

lemma word_char_A: "is_word_char (CHR ''A'')" and word_char_L: "is_word_char (CHR ''L'')"
  by (simp_all add: is_word_char_def is_alnum_def is_letter_def is_upper_char_nat)

theorem bare_ticker_is_detected_witness:
  "search_whole_word (lower ''AAPL'') (lower ''AAPL'') \<and>
   ''AAPL'' \<in> set (exact_token_layer (lower ''AAPL'') example_lookup []) \<and>
   ''AAPL'' \<in> set (detect_tickers_in_text example_close_matches ''AAPL'' example_lookup)"
  using bare_ticker_is_detected[where s = "''AAPL''" and lookup = example_lookup
      and gcm = example_close_matches and found = "[]"]
  by (simp add: example_keys word_char_A word_char_L)

text \<open>The claim as it is written holds of every key. A key that begins with a character
  that is no word character has no word boundary in front of it when it is the whole
  text: for the index symbol \<^verbatim>\<open>^GSPC\<close>, in a lookup that gives it no alias, no layer
  matches and the result is empty.\<close>

lemma fuzzy_layer_no_aliases:
  assumes "alias_pairs lookup = []"
  shows "fuzzy_layer gcm s lookup found = found"
proof -
  have inner: "foldl (\<lambda>found m. case alias_map lookup m of None \<Rightarrow> found
                                | Some t \<Rightarrow> List.insert t found) found ms = found" for found ms
    using assms by (induction ms arbitrary: found) (simp_all add: alias_map_def)
  have outer: "foldl (\<lambda>found tok. found) found toks = found" for toks :: "string list"
    by (induction toks) simp_all
  show ?thesis
    unfolding fuzzy_layer_def inner by (rule outer)
qed

theorem bare_ticker_counterexample:
  "\<forall>gcm. detect_tickers_in_text gcm ''^GSPC''
      [(''^GSPC'', \<lparr>meta_ticker = ''^GSPC'', name = None, aliases = None\<rparr>)] = []"
proof
  fix gcm
  let ?L = "[(''^GSPC'', \<lparr>meta_ticker = ''^GSPC'', name = None, aliases = None\<rparr>)]"
  have e: "exact_matches ''^GSPC'' ?L = []" by code_simp
  have "alias_pairs ?L = []" by code_simp
  then have "fuzzy_layer gcm (lower ''^GSPC'') ?L [] = []"
    by (rule fuzzy_layer_no_aliases)
  with e show "detect_tickers_in_text gcm ''^GSPC'' ?L = []"
    by (simp add: detect_tickers_in_text_def)
qed

subsection \<open>The aliases of the lookup\<close>

lemma set_name_aliases:
  "set (name_aliases n al) =
   set al \<union> {lower n} \<union> {tok \<in> set (alnum_runs (lower n)). 2 < length tok}"
proof -
  have "set (foldl (\<lambda>a token. if 2 < length token then List.insert token a else a)
               acc toks) = set acc \<union> {tok \<in> set toks. 2 < length tok}"
    for acc toks :: "string list"
    by (induction toks arbitrary: acc) auto
  then show ?thesis by (auto simp: name_aliases_def)
qed

lemma distinct_foldl_insert_long:
  "distinct acc \<Longrightarrow>
   distinct (foldl (\<lambda>a token. if 2 < length token then List.insert token a else a) acc toks)"
  by (induction toks arbitrary: acc) auto

lemma distinct_name_aliases: "distinct al \<Longrightarrow> distinct (name_aliases n al)"
  unfolding name_aliases_def by (rule distinct_foldl_insert_long) simp

lemma ticker_entry_aliases:
  "lower (fst (ticker_entry f)) \<in> set (get_aliases (snd (ticker_entry f))) \<and>
     (\<forall>n. name (snd (ticker_entry f)) = Some n \<longrightarrow> n \<noteq> [] \<longrightarrow>
        set (get_aliases (snd (ticker_entry f))) =
          {lower (fst (ticker_entry f)), lower n} \<union>
          {tok \<in> set (alnum_runs (lower n)). 2 < length tok}) \<and>
     (name (snd (ticker_entry f)) = None \<or> name (snd (ticker_entry f)) = Some [] \<longrightarrow>
        get_aliases (snd (ticker_entry f)) = [lower (fst (ticker_entry f))]) \<and>
     sorted (get_aliases (snd (ticker_entry f))) \<and>
     distinct (get_aliases (snd (ticker_entry f)))"
  by (auto simp: ticker_entry_def Let_def get_aliases_def set_name_aliases
      distinct_name_aliases split: option.splits)

lemma set_update_subset: "set (AList.update k v al) \<subseteq> insert (k, v) (set al)"
  by (induction al) auto

lemma build_invariant:
  assumes "\<forall>(t, m)\<in>set acc. P t m" "\<forall>f\<in>set fs. P (fst (g f)) (snd (g f))"
  shows "\<forall>(t, m)\<in>set (foldl (\<lambda>lookup f. AList.update (fst (g f)) (snd (g f)) lookup) acc fs). P t m"
  using assms
proof (induction fs arbitrary: acc)
  case Nil
  then show ?case by simp
next
  case (Cons f fs)
  have "\<forall>(t, m)\<in>set (AList.update (fst (g f)) (snd (g f)) acc). P t m"
  proof (clarify)
    fix t m assume "(t, m) \<in> set (AList.update (fst (g f)) (snd (g f)) acc)"
    then have "(t = fst (g f) \<and> m = snd (g f)) \<or> (t, m) \<in> set acc"
      using set_update_subset[of "fst (g f)" "snd (g f)" acc] by blast
    then show "P t m" using Cons.prems by fastforce
  qed
  then show ?case using Cons by simp
qed

lemma keys_build:
  "fst ` set (foldl (\<lambda>lookup f. AList.update (fst (g f)) (snd (g f)) lookup) acc fs) =
   fst ` set acc \<union> (\<lambda>f. fst (g f)) ` set fs"
  by (induction fs arbitrary: acc) (auto simp: dom_update)

lemma fst_ticker_entry: "fst (ticker_entry f) = upper (stem (file_name f))"
  by (simp add: ticker_entry_def Let_def)

text \<open>
  Claim C7. The lookup that \<^verbatim>\<open>build_ticker_lookup\<close> returns has an entry for the
  upper-cased stem of every CSV file of the directory, and no other. In every entry, with
  the symbol \<open>t\<close>: the aliases contain the lowercased symbol; when the entry has a name
  \<open>n\<close> that is not empty, the aliases are exactly the lowercased symbol, the lowercased
  name, and the alphanumeric tokens of the lowercased name that are longer than 2; when it
  has no name, the lowercased symbol is the only alias. The aliases are sorted and
  without repetitions.
\<close>

theorem build_ticker_lookup_aliases:
  "fst ` set (build_ticker_lookup prices_dir) =
     (\<lambda>csv_path. upper (stem (file_name csv_path))) ` set (csv_files prices_dir) \<and>
   (\<forall>(t, m)\<in>set (build_ticker_lookup prices_dir).
     lower t \<in> set (get_aliases m) \<and>
     (\<forall>n. name m = Some n \<longrightarrow> n \<noteq> [] \<longrightarrow>
        set (get_aliases m) =
          {lower t, lower n} \<union> {tok \<in> set (alnum_runs (lower n)). 2 < length tok}) \<and>
     (name m = None \<or> name m = Some [] \<longrightarrow> get_aliases m = [lower t]) \<and>
     sorted (get_aliases m) \<and> distinct (get_aliases m))"
proof
  show "fst ` set (build_ticker_lookup prices_dir) =
     (\<lambda>csv_path. upper (stem (file_name csv_path))) ` set (csv_files prices_dir)"
    unfolding build_ticker_lookup_def by (simp only: keys_build) (simp add: fst_ticker_entry)
  let ?P = "\<lambda>t m. lower t \<in> set (get_aliases m) \<and>
     (\<forall>n. name m = Some n \<longrightarrow> n \<noteq> [] \<longrightarrow>
        set (get_aliases m) =
          {lower t, lower n} \<union> {tok \<in> set (alnum_runs (lower n)). 2 < length tok}) \<and>
     (name m = None \<or> name m = Some [] \<longrightarrow> get_aliases m = [lower t]) \<and>
     sorted (get_aliases m) \<and> distinct (get_aliases m)"
  show "\<forall>(t, m)\<in>set (build_ticker_lookup prices_dir). ?P t m"
    unfolding build_ticker_lookup_def
  proof (rule build_invariant[where P = ?P])
    show "\<forall>(t, m)\<in>set []. ?P t m" by simp
    show "\<forall>f\<in>set (csv_files prices_dir). ?P (fst (ticker_entry f)) (snd (ticker_entry f))"
      using ticker_entry_aliases by blast
  qed
qed

lemma example_dir_lookup:
  "build_ticker_lookup example_dir =
     [(''AAPL'', \<lparr>meta_ticker = ''AAPL'', name = Some ''Apple Inc'',
                  aliases = Some [''aapl'', ''apple'', ''apple inc'', ''inc'']\<rparr>),
      (''MSFT'', \<lparr>meta_ticker = ''MSFT'', name = None, aliases = Some [''msft'']\<rparr>),
      (''T'', \<lparr>meta_ticker = ''T'', name = Some ''AT and T'',
               aliases = Some [''and'', ''at and t'', ''t'']\<rparr>)]"
  by code_simp

lemma example_dir_tokens:
  "alnum_runs ''apple inc'' = [''apple'', ''inc'']"
  "lower ''Apple Inc'' = ''apple inc''" "lower ''AAPL'' = ''aapl''"
  "alnum_runs ''at and t'' = [''at'', ''and'', ''t'']"
  "lower ''AT and T'' = ''at and t''" "lower ''T'' = ''t''" "lower ''MSFT'' = ''msft''"
  by code_simp+

lemma example_dir_keys:
  "(\<lambda>csv_path. upper (stem (file_name csv_path))) ` set (csv_files example_dir) =
   {''AAPL'', ''MSFT'', ''T''}"
proof -
  have "map (\<lambda>csv_path. upper (stem (file_name csv_path))) (csv_files example_dir) =
        [''AAPL'', ''MSFT'', ''T'']"
    by code_simp
  then have "set (map (\<lambda>csv_path. upper (stem (file_name csv_path))) (csv_files example_dir)) =
        set [''AAPL'', ''MSFT'', ''T'']"
    by (rule arg_cong)
  then show ?thesis by simp
qed

text \<open>The name \<^verbatim>\<open>Apple Inc\<close> gives the aliases \<^verbatim>\<open>apple inc\<close>, \<^verbatim>\<open>apple\<close> and
  \<^verbatim>\<open>inc\<close> beside \<^verbatim>\<open>aapl\<close>; of the name \<^verbatim>\<open>AT and T\<close> the tokens \<^verbatim>\<open>at\<close> and
  \<^verbatim>\<open>t\<close> are too short, and \<^verbatim>\<open>t\<close> is an alias as the lowercased symbol only; a file
  without a name column gives the lowercased symbol alone.\<close>

theorem build_ticker_lookup_aliases_witness:
  "fst ` set (build_ticker_lookup example_dir) = {''AAPL'', ''MSFT'', ''T''} \<and>
   (''AAPL'', \<lparr>meta_ticker = ''AAPL'', name = Some ''Apple Inc'',
               aliases = Some [''aapl'', ''apple'', ''apple inc'', ''inc'']\<rparr>)
     \<in> set (build_ticker_lookup example_dir) \<and>
   set [''aapl'', ''apple'', ''apple inc'', ''inc''] =
     {''aapl'', ''apple inc''} \<union> {tok \<in> set [''apple'', ''inc'']. 2 < length tok} \<and>
   (''T'', \<lparr>meta_ticker = ''T'', name = Some ''AT and T'',
            aliases = Some [''and'', ''at and t'', ''t'']\<rparr>)
     \<in> set (build_ticker_lookup example_dir) \<and>
   set [''and'', ''at and t'', ''t''] =
     {''t'', ''at and t''} \<union> {tok \<in> set [''at'', ''and'', ''t'']. 2 < length tok} \<and>
   (''MSFT'', \<lparr>meta_ticker = ''MSFT'', name = None, aliases = Some [''msft'']\<rparr>)
     \<in> set (build_ticker_lookup example_dir)"
proof -
  let ?A = "\<lparr>meta_ticker = ''AAPL'', name = Some ''Apple Inc'',
               aliases = Some [''aapl'', ''apple'', ''apple inc'', ''inc'']\<rparr>"
  let ?T = "\<lparr>meta_ticker = ''T'', name = Some ''AT and T'',
            aliases = Some [''and'', ''at and t'', ''t'']\<rparr>"
  note entries = build_ticker_lookup_aliases[where prices_dir = example_dir, THEN conjunct2,
      THEN bspec]
  have k: "fst ` set (build_ticker_lookup example_dir) = {''AAPL'', ''MSFT'', ''T''}"
    using build_ticker_lookup_aliases[where prices_dir = example_dir, THEN conjunct1]
    by (simp only: example_dir_keys)
  have a: "(''AAPL'', ?A) \<in> set (build_ticker_lookup example_dir)"
    and t: "(''T'', ?T) \<in> set (build_ticker_lookup example_dir)"
    by (simp_all add: example_dir_lookup)
  have "set (get_aliases ?A) =
      {lower ''AAPL'', lower ''Apple Inc''} \<union>
      {tok \<in> set (alnum_runs (lower ''Apple Inc'')). 2 < length tok}"
    by (rule entries[OF a, unfolded prod.case, THEN conjunct2, THEN conjunct1, rule_format])
      simp_all
  then have A: "set [''aapl'', ''apple'', ''apple inc'', ''inc''] =
     {''aapl'', ''apple inc''} \<union> {tok \<in> set [''apple'', ''inc'']. 2 < length tok}"
    unfolding example_dir_tokens get_aliases_def by (simp only: ticker_meta.simps option.case)
  have "set (get_aliases ?T) =
      {lower ''T'', lower ''AT and T''} \<union>
      {tok \<in> set (alnum_runs (lower ''AT and T'')). 2 < length tok}"
    by (rule entries[OF t, unfolded prod.case, THEN conjunct2, THEN conjunct1, rule_format])
      simp_all
  then have T: "set [''and'', ''at and t'', ''t''] =
     {''t'', ''at and t''} \<union> {tok \<in> set [''at'', ''and'', ''t'']. 2 < length tok}"
    unfolding example_dir_tokens get_aliases_def by (simp only: ticker_meta.simps option.case)
  have m: "(''MSFT'', \<lparr>meta_ticker = ''MSFT'', name = None, aliases = Some [''msft'']\<rparr>)
     \<in> set (build_ticker_lookup example_dir)"
    by (simp add: example_dir_lookup)
  from k a A t T m show ?thesis by (intro conjI)
qed

subsection \<open>The failures of the price loader\<close>












lemma good_dir_panel:
  "load_price_panel to_datetime_days to_datetime_coerce_days (Some good_dir) =
     Inr \<lparr>panel_rows =
            [\<lparr>panel_date = Some 10, panel_open = Some 100, panel_high = Some 102,
              panel_low = Some 99, panel_close = Some 101, panel_volume = Some 4000,
              panel_adj_close = Some 101, panel_ticker = ''AAPL''\<rparr>,
             \<lparr>panel_date = Some 11, panel_open = Some 101, panel_high = Some 103,
              panel_low = Some 100, panel_close = Some 102, panel_volume = Some 5000,
              panel_adj_close = Some 102, panel_ticker = ''AAPL''\<rparr>],
          source_files = [''aapl.csv'']\<rparr>"
  by code_simp


subsection \<open>The arguments of the event-window calculator\<close>

lemma rows_of_prev_closes:
  "map (\<lambda>(p, prev_close, r).
          \<lparr>row_ticker = ticker p, row_date = date p, row_close = close p, daily_return = r\<rparr>)
       (map (\<lambda>(p, prev_close).
               (p, prev_close,
                case prev_close of None \<Rightarrow> NaN | Some c \<Rightarrow> fminus1 (fdiv (close p) c)))
            (zip ps (prev_closes m ps))) =
   add_daily_return m ps"
  by (induction ps arbitrary: m) simp_all

lemma write_rows_from:
  assumes "a < length h" "h ! a = Returns rs" "k \<le> length rs"
  shows "write_rows g n a [k..<length rs] h =
         Some (h[a := Returns (take k rs @ map (\<lambda>r. event_window g n (ev r)) (drop k rs))])"
  using assms
proof (induction "length rs - k" arbitrary: k h rs)
  case 0
  then have "k = length rs" by simp
  moreover have "h[a := Returns rs] = h"
    using list_update_id[of h a] "0.prems"(2) by simp
  ultimately show ?case by simp
next
  case (Suc d)
  then have k: "k < length rs" by simp
  let ?rs = "rs[k := event_window g n (ev (rs ! k))]"
  let ?h = "h[a := Returns ?rs]"
  have step: "write_row g n a k h = Some ?h"
    using Suc.prems k by (simp add: write_row_def lookup_frame_def)
  have "write_rows g n a [Suc k..<length ?rs] ?h =
      Some (?h[a := Returns (take (Suc k) ?rs @ map (\<lambda>r. event_window g n (ev r)) (drop (Suc k) ?rs))])"
    using Suc.hyps(2) Suc.prems k by (intro Suc.hyps(1)) simp_all
  moreover have "take (Suc k) ?rs = take k rs @ [event_window g n (ev (rs ! k))]"
    using k by (simp add: take_Suc_conv_app_nth)
  moreover have "drop k rs = rs ! k # drop (Suc k) rs"
    using k by (simp add: Cons_nth_drop_Suc)
  ultimately show ?case
    using k step by (simp add: upt_conv_Cons)
qed

lemma compute_event_windows_store_result:
  assumes "exploded_events_df < length h" "price_df < length h"
    and "h ! exploded_events_df = Events es" "h ! price_df = Prices ps"
  shows "compute_event_windows_store exploded_events_df price_df n h =
     Some (length h + 5,
           h @ [Prices (normalize_dates ps), Prices (sorted_prices ps),
                WithReturn (map (\<lambda>(p, prev_close).
                                   (p, prev_close,
                                    case prev_close of
                                      None \<Rightarrow> NaN
                                    | Some c \<Rightarrow> fminus1 (fdiv (close p) c)))
                              (zip (sorted_prices ps)
                                   (prev_closes Map.empty (sorted_prices ps)))),
                Rows (add_daily_return Map.empty (sorted_prices ps)),
                Events es,
                Returns (compute_event_windows es ps n)])"
proof -
  let ?sorted = "sorted_prices ps"
  let ?wr = "WithReturn (map (\<lambda>(p, prev_close).
                                   (p, prev_close,
                                    case prev_close of
                                      None \<Rightarrow> NaN
                                    | Some c \<Rightarrow> fminus1 (fdiv (close p) c)))
                              (zip ?sorted (prev_closes Map.empty ?sorted)))"
  let ?rows = "add_daily_return Map.empty ?sorted"
  let ?g = "ticker_groups ?rows"
  let ?h9 = "h @ [Prices (normalize_dates ps), Prices ?sorted, ?wr, Rows ?rows, Events es, Events es]"
  let ?h10 = "h @ [Prices (normalize_dates ps), Prices ?sorted, ?wr, Rows ?rows, Events es,
                   Returns (map (\<lambda>e. no_data e n) es)]"
  have s1: "copy price_df h = Some (length h, h @ [Prices ps])"
    using assms by (simp add: copy_def lookup_frame_def alloc_def)
  have s2: "set_dates (length h) (h @ [Prices ps]) = Some (h @ [Prices (normalize_dates ps)])"
    by (simp add: set_dates_def lookup_frame_def)
  have s3: "sort_values (length h) (h @ [Prices (normalize_dates ps)]) =
      Some (length h + 1, h @ [Prices (normalize_dates ps), Prices ?sorted])"
    by (simp add: sort_values_def lookup_frame_def alloc_def sorted_prices_def)
  have s4: "reset_index (length h + 1) (h @ [Prices (normalize_dates ps), Prices ?sorted]) =
      Some (length h + 2, h @ [Prices (normalize_dates ps), Prices ?sorted, Prices ?sorted])"
    by (simp add: reset_index_def lookup_frame_def alloc_def nth_append)
  have s5: "add_prev_close (length h + 2)
        (h @ [Prices (normalize_dates ps), Prices ?sorted, Prices ?sorted]) =
      Some (h @ [Prices (normalize_dates ps), Prices ?sorted,
                 WithPrev (zip ?sorted (prev_closes Map.empty ?sorted))])"
    by (simp add: add_prev_close_def lookup_frame_def nth_append list_update_append)
  have s6: "add_daily_return_column (length h + 2)
        (h @ [Prices (normalize_dates ps), Prices ?sorted,
              WithPrev (zip ?sorted (prev_closes Map.empty ?sorted))]) =
      Some (h @ [Prices (normalize_dates ps), Prices ?sorted, ?wr])"
    by (simp add: add_daily_return_column_def lookup_frame_def nth_append list_update_append)
  have s7: "drop_prev_close (length h + 2) (h @ [Prices (normalize_dates ps), Prices ?sorted, ?wr]) =
      Some (length h + 3, h @ [Prices (normalize_dates ps), Prices ?sorted, ?wr, Rows ?rows])"
    by (simp add: drop_prev_close_def lookup_frame_def nth_append alloc_def rows_of_prev_closes
        del: map_map)
  have s8: "read_groups (length h + 3)
        (h @ [Prices (normalize_dates ps), Prices ?sorted, ?wr, Rows ?rows]) = Some ?g"
    by (simp add: read_groups_def lookup_frame_def nth_append)
  have s9: "copy exploded_events_df (h @ [Prices (normalize_dates ps), Prices ?sorted, ?wr, Rows ?rows]) =
      Some (length h + 4, h @ [Prices (normalize_dates ps), Prices ?sorted, ?wr, Rows ?rows, Events es])"
    using assms by (simp add: copy_def lookup_frame_def nth_append alloc_def)
  have s10: "reset_index (length h + 4)
        (h @ [Prices (normalize_dates ps), Prices ?sorted, ?wr, Rows ?rows, Events es]) =
      Some (length h + 5, ?h9)"
    by (simp add: reset_index_def lookup_frame_def nth_append alloc_def)
  have s11: "add_return_columns n (length h + 5) ?h9 = Some ?h10"
    by (simp add: add_return_columns_def lookup_frame_def nth_append list_update_append)
  have s12: "frame_length (length h + 5) ?h10 = Some (length es)"
    by (simp add: frame_length_def lookup_frame_def nth_append)
  have "write_rows ?g n (length h + 5) [0..<length (map (\<lambda>e. no_data e n) es)] ?h10 =
      Some (?h10[length h + 5 := Returns (take 0 (map (\<lambda>e. no_data e n) es) @
              map (\<lambda>r. event_window ?g n (ev r)) (drop 0 (map (\<lambda>e. no_data e n) es)))])"
    by (rule write_rows_from) (simp_all add: nth_append)
  then have s13: "write_rows ?g n (length h + 5) [0..<length es] ?h10 =
      Some (h @ [Prices (normalize_dates ps), Prices ?sorted, ?wr, Rows ?rows, Events es,
                 Returns (compute_event_windows es ps n)])"
    by (simp add: list_update_append compute_event_windows_def Let_def comp_def no_data_def)
  show ?thesis
    unfolding compute_event_windows_store_def
    by (simp only: s1 s2 s3 s4 s5 s6 s7 s8 s9 s10 s11 s12 s13 Option.bind.bind_lunit prod.case)
qed

text \<open>
  Claim C10. Let the store hold the events table at the address given as first argument
  and the price table at the address given as second argument. Then the function
  returns, every object that was in the store before the call is the same after it, in
  particular the two tables, the table returned is a new object, and it holds the rows
  of \<open>compute_event_windows\<close>: the columns \<^verbatim>\<open>ar_d\<close> and \<^verbatim>\<open>car_1_3\<close> are written into
  that new table only.
\<close>

theorem compute_event_windows_leaves_inputs_unchanged:
  assumes "exploded_events_df < length h" and "price_df < length h"
    and "h ! exploded_events_df = Events es" and "h ! price_df = Prices ps"
  shows "\<exists>out h'. compute_event_windows_store exploded_events_df price_df n h = Some (out, h') \<and>
     h' ! exploded_events_df = Events es \<and>
     h' ! price_df = Prices ps \<and>
     (\<forall>a<length h. h' ! a = h ! a) \<and>
     length h \<le> out \<and> out < length h' \<and>
     h' ! out = Returns (compute_event_windows es ps n)"
proof -
  let ?new = "[Prices (normalize_dates ps), Prices (sorted_prices ps),
                WithReturn (map (\<lambda>(p, prev_close).
                                   (p, prev_close,
                                    case prev_close of
                                      None \<Rightarrow> NaN
                                    | Some c \<Rightarrow> fminus1 (fdiv (close p) c)))
                              (zip (sorted_prices ps)
                                   (prev_closes Map.empty (sorted_prices ps)))),
                Rows (add_daily_return Map.empty (sorted_prices ps)),
                Events es,
                Returns (compute_event_windows es ps n)]"
  have run: "compute_event_windows_store exploded_events_df price_df n h =
      Some (length h + 5, h @ ?new)"
    by (rule compute_event_windows_store_result[OF assms])
  have old: "\<forall>a<length h. (h @ ?new) ! a = h ! a"
    by (simp add: nth_append)
  have out: "(h @ ?new) ! (length h + 5) = Returns (compute_event_windows es ps n)"
    by (simp add: nth_append)
  have "(h @ ?new) ! exploded_events_df = Events es" "(h @ ?new) ! price_df = Prices ps"
    using assms by (simp_all add: nth_append)
  moreover have "length h \<le> length h + 5" "length h + 5 < length (h @ ?new)"
    by simp_all
  ultimately show ?thesis
    using run old out by blast
qed

text \<open>The store with the tables \<open>window_events\<close> and \<open>window_prices\<close>: after the call
  both are what they were, and the result is a third object.\<close>

theorem compute_event_windows_leaves_inputs_unchanged_witness:
  "\<exists>out h'. compute_event_windows_store 0 1 3 [Events window_events, Prices window_prices] =
               Some (out, h') \<and>
     h' ! 0 = Events window_events \<and>
     h' ! 1 = Prices window_prices \<and>
     2 \<le> out \<and>
     h' ! out = Returns (compute_event_windows window_events window_prices 3)"
proof -
  have "\<exists>out h'. compute_event_windows_store 0 1 3 [Events window_events, Prices window_prices] =
               Some (out, h') \<and>
     h' ! 0 = Events window_events \<and>
     h' ! 1 = Prices window_prices \<and>
     (\<forall>a<length [Events window_events, Prices window_prices].
         h' ! a = [Events window_events, Prices window_prices] ! a) \<and>
     length [Events window_events, Prices window_prices] \<le> out \<and> out < length h' \<and>
     h' ! out = Returns (compute_event_windows window_events window_prices 3)"
    by (rule compute_event_windows_leaves_inputs_unchanged) simp_all
  then obtain out h' where
    "compute_event_windows_store 0 1 3 [Events window_events, Prices window_prices] = Some (out, h')"
    "h' ! 0 = Events window_events" "h' ! 1 = Prices window_prices"
    "length [Events window_events, Prices window_prices] \<le> out"
    "h' ! out = Returns (compute_event_windows window_events window_prices 3)"
    by blast
  then show ?thesis by (intro exI[of _ out] exI[of _ h']) simp
qed

end
